theory Spec2Isabelle
  imports Complex_Main "HOL-Library.Sublist" "HOL-Library.Product_Lexorder"
begin

section \<open>Values of the Python runtime\<close>

text \<open>
  Both modules work on whatever \<^verbatim>\<open>json.loads\<close> returns, so the model works on JSON
  values. Python's \<^verbatim>\<open>None\<close> and the JSON value \<^verbatim>\<open>null\<close> are the same object:
  \<open>JNull\<close> stands for both. A dict is the list of its items in insertion order; lookups
  take the first item with the key, which is the dict's item whenever the keys are
  distinct, as the keys of a Python dict are. Strings are ASCII.
\<close>

datatype pyfloat = Finite rat | Infinite | NaN

datatype json =
    JNull
  | JBool bool
  | JInt int
  | JFloat pyfloat
  | JStr string
  | JArr "json list"
  | JObj "(string \<times> json) list"

text \<open>
  How a call ends when it does not return: the uncaught Python exception, or
  \<open>NotModelled\<close> where the source formats a value that is not a string into a file name
  (\<^verbatim>\<open>f"{server_name}.json"\<close>), which the model does not follow.
\<close>

datatype abort = TypeError | AttributeError | KeyError | ValueError | OverflowError | NotModelled

text \<open>Truth value of an object, as \<^verbatim>\<open>if x:\<close> and \<^verbatim>\<open>not x\<close> take it.\<close>

fun truthy :: "json \<Rightarrow> bool" where
  "truthy JNull = False"
| "truthy (JBool b) = b"
| "truthy (JInt i) = (i \<noteq> 0)"
| "truthy (JFloat f) = (f \<noteq> Finite 0)"
| "truthy (JStr s) = (s \<noteq> [])"
| "truthy (JArr xs) = (xs \<noteq> [])"
| "truthy (JObj kvs) = (kvs \<noteq> [])"

text \<open>
  \<^verbatim>\<open>k in v\<close> for a string \<open>k\<close>: key membership in a dict, element membership in a list,
  substring test in a string, \<^verbatim>\<open>TypeError\<close> on anything else.
\<close>

fun py_in :: "string \<Rightarrow> json \<Rightarrow> abort + bool" where
  "py_in k (JObj kvs) = Inr (map_of kvs k \<noteq> None)"
| "py_in k (JArr xs) = Inr (JStr k \<in> set xs)"
| "py_in k (JStr s) = Inr (sublist k s)"
| "py_in k v = Inl TypeError"

text \<open>\<^verbatim>\<open>v[k]\<close> for a string \<open>k\<close>: only a dict can be indexed by a string.\<close>

fun py_getitem :: "json \<Rightarrow> string \<Rightarrow> abort + json" where
  "py_getitem (JObj kvs) k = (case map_of kvs k of None \<Rightarrow> Inl KeyError | Some v \<Rightarrow> Inr v)"
| "py_getitem v k = Inl TypeError"

text \<open>\<^verbatim>\<open>v.get(k, default)\<close>: only a dict has the method.\<close>

fun py_get :: "json \<Rightarrow> string \<Rightarrow> json \<Rightarrow> abort + json" where
  "py_get (JObj kvs) k dflt = Inr (case map_of kvs k of None \<Rightarrow> dflt | Some v \<Rightarrow> v)"
| "py_get v k dflt = Inl AttributeError"

subsection \<open>\<^verbatim>\<open>int(...)\<close>\<close>

definition is_digit :: "char \<Rightarrow> bool" where
  "is_digit c = (48 \<le> (of_char c :: nat) \<and> (of_char c :: nat) \<le> 57)"

definition digit_val :: "char \<Rightarrow> nat" where
  "digit_val c = (of_char c :: nat) - 48"

text \<open>
  The white space that \<^verbatim>\<open>int\<close> skips around the digits of an ASCII string: tab, line
  feed, vertical tab, form feed, carriage return and space. The separators 28 to 31,
  which \<^verbatim>\<open>str.strip\<close> removes, are not among them.
\<close>

definition is_space :: "char \<Rightarrow> bool" where
  "is_space c = ((of_char c :: nat) \<in> {9, 10, 11, 12, 13, 32})"

text \<open>
  The default of \<^verbatim>\<open>sys.get_int_max_str_digits()\<close>: a string with more digits, leading
  zeros counted and underscores not, is refused with a \<^verbatim>\<open>ValueError\<close>.
\<close>

definition int_max_str_digits :: nat where
  "int_max_str_digits = 4300"

definition strip :: "string \<Rightarrow> string" where
  "strip s = rev (dropWhile is_space (rev (dropWhile is_space s)))"

text \<open>Digits after the first one; a single underscore may stand between two digits.\<close>

fun parse_digits :: "nat \<Rightarrow> string \<Rightarrow> nat option" where
  "parse_digits acc [] = Some acc"
| "parse_digits acc (c # cs) =
     (if is_digit c then parse_digits (10 * acc + digit_val c) cs
      else if c = CHR ''_'' then
        (case cs of
           [] \<Rightarrow> None
         | d # ds \<Rightarrow> if is_digit d then parse_digits (10 * acc + digit_val d) ds else None)
      else None)"

definition parse_unsigned :: "string \<Rightarrow> nat option" where
  "parse_unsigned s =
     (case s of
        [] \<Rightarrow> None
      | d # ds \<Rightarrow>
          if is_digit d \<and> length (filter is_digit s) \<le> int_max_str_digits
          then parse_digits (digit_val d) ds else None)"

text \<open>
  \<^verbatim>\<open>int(s)\<close> of a string in base 10: white space around, a sign, digits; \<open>None\<close> is
  the \<^verbatim>\<open>ValueError\<close>.
\<close>

definition py_int_str :: "string \<Rightarrow> int option" where
  "py_int_str s =
     (case strip s of
        [] \<Rightarrow> None
      | c # cs \<Rightarrow>
          if c = CHR ''-'' then map_option (\<lambda>n. - int n) (parse_unsigned cs)
          else if c = CHR ''+'' then map_option int (parse_unsigned cs)
          else map_option int (parse_unsigned (c # cs)))"

text \<open>\<^verbatim>\<open>int(v)\<close> of a JSON value.\<close>

fun py_int :: "json \<Rightarrow> abort + int" where
  "py_int (JStr s) = (case py_int_str s of None \<Rightarrow> Inl ValueError | Some i \<Rightarrow> Inr i)"
| "py_int (JInt i) = Inr i"
| "py_int (JBool b) = Inr (if b then 1 else 0)"
| "py_int (JFloat (Finite r)) = Inr (if 0 \<le> r then \<lfloor>r\<rfloor> else \<lceil>r\<rceil>)"
| "py_int (JFloat Infinite) = Inl OverflowError"
| "py_int (JFloat NaN) = Inl ValueError"
| "py_int v = Inl TypeError"

subsection \<open>\<^verbatim>\<open>datetime.strptime(s, "%Y-%m-%d")\<close>\<close>

text \<open>
  The format compiles to the regular expression
  \<^verbatim>\<open>(\d\d\d\d)-(1[0-2]|0[1-9]|[1-9])-(3[0-1]|[1-2]\d|0[1-9]|[1-9]| [1-9])\<close>,
  matched at the start of the string; text left over and a date that does not exist
  are both a \<^verbatim>\<open>ValueError\<close> (\<open>None\<close> here). A date is (year, month, day).
\<close>

type_synonym date = "nat \<times> nat \<times> nat"

definition is_pos_digit :: "char \<Rightarrow> bool" where
  "is_pos_digit c = (is_digit c \<and> c \<noteq> CHR ''0'')"

fun parse_month :: "string \<Rightarrow> (nat \<times> string) option" where
  "parse_month (c1 # c2 # r) =
     (if c1 = CHR ''1'' \<and> c2 \<in> set ''012'' then Some (10 + digit_val c2, r)
      else if c1 = CHR ''0'' \<and> is_pos_digit c2 then Some (digit_val c2, r)
      else if is_pos_digit c1 then Some (digit_val c1, c2 # r)
      else None)"
| "parse_month [c1] = (if is_pos_digit c1 then Some (digit_val c1, []) else None)"
| "parse_month [] = None"

fun parse_day :: "string \<Rightarrow> (nat \<times> string) option" where
  "parse_day (c1 # c2 # r) =
     (if c1 = CHR ''3'' \<and> c2 \<in> set ''01'' then Some (30 + digit_val c2, r)
      else if c1 \<in> set ''12'' \<and> is_digit c2 then Some (10 * digit_val c1 + digit_val c2, r)
      else if c1 = CHR ''0'' \<and> is_pos_digit c2 then Some (digit_val c2, r)
      else if is_pos_digit c1 then Some (digit_val c1, c2 # r)
      else if c1 = CHR '' '' \<and> is_pos_digit c2 then Some (digit_val c2, r)
      else None)"
| "parse_day [c1] = (if is_pos_digit c1 then Some (digit_val c1, []) else None)"
| "parse_day [] = None"

definition is_leap :: "nat \<Rightarrow> bool" where
  "is_leap y = (y mod 4 = 0 \<and> (y mod 100 \<noteq> 0 \<or> y mod 400 = 0))"

definition days_in_month :: "nat \<Rightarrow> nat \<Rightarrow> nat" where
  "days_in_month y m =
     (if m = 2 then (if is_leap y then 29 else 28)
      else if m \<in> {4, 6, 9, 11} then 30 else 31)"

definition valid_date :: "date \<Rightarrow> bool" where
  "valid_date dt =
     (case dt of (y, m, d) \<Rightarrow>
        1 \<le> y \<and> y \<le> 9999 \<and> 1 \<le> m \<and> m \<le> 12 \<and> 1 \<le> d \<and> d \<le> days_in_month y m)"

definition strptime_ymd :: "string \<Rightarrow> date option" where
  "strptime_ymd s =
     (case s of
        y1 # y2 # y3 # y4 # dash1 # r1 \<Rightarrow>
          if is_digit y1 \<and> is_digit y2 \<and> is_digit y3 \<and> is_digit y4 \<and> dash1 = CHR ''-'' then
            (case parse_month r1 of
               None \<Rightarrow> None
             | Some (m, r2) \<Rightarrow>
                 (case r2 of
                    [] \<Rightarrow> None
                  | dash2 # r3 \<Rightarrow>
                      if dash2 = CHR ''-'' then
                        (case parse_day r3 of
                           None \<Rightarrow> None
                         | Some (d, r4) \<Rightarrow>
                             let y = 1000 * digit_val y1 + 100 * digit_val y2
                                     + 10 * digit_val y3 + digit_val y4
                             in if r4 = [] \<and> valid_date (y, m, d) then Some (y, m, d) else None)
                      else None))
          else None
      | _ \<Rightarrow> None)"

text \<open>
  A naive \<^verbatim>\<open>datetime\<close>: the date and the time of day in microseconds since midnight.
  Python compares two of them field by field, which is the lexicographic order.
\<close>

type_synonym datetime = "date \<times> nat"

definition midnight :: "date \<Rightarrow> datetime" where
  "midnight d = (d, 0)"

section \<open>AppHub (\<^verbatim>\<open>app_hub.py\<close>)\<close>

text \<open>
  What the object prints is part of its behaviour: every denial returns \<^verbatim>\<open>None\<close>, and
  the printed line is what tells one denial from another. A message stands for one
  \<^verbatim>\<open>print\<close> call of the source; the line of \<^verbatim>\<open>app_hub.py\<close> is given with each.
\<close>

datatype msg =
    DocumentUnavailable string    \<comment> \<open>line 116, the file could not be fetched or parsed\<close>
  | MalformedDocument             \<comment> \<open>line 130, no \<^verbatim>\<open>users\<close> or no \<^verbatim>\<open>apps\<close>\<close>
  | VersionTooOld int int         \<comment> \<open>line 215\<close>
  | MalformedVersion              \<comment> \<open>line 218\<close>
  | IdentityNotFound              \<comment> \<open>line 224\<close>
  | IdentityShown string          \<comment> \<open>lines 185 to 194, the identity put on the clipboard or printed\<close>
  | ApplicationUnknown string     \<comment> \<open>line 233\<close>
  | UserNotEntitled string string \<comment> \<open>line 238\<close>
  | LicenseInactive               \<comment> \<open>line 252\<close>
  | LicenseExpired string         \<comment> \<open>line 262\<close>
  | MalformedExpiry string        \<comment> \<open>line 269\<close>
  | CheckLicenseFirst             \<comment> \<open>line 281\<close>
  | ParameterNotFound string      \<comment> \<open>line 342\<close>

text \<open>
  The three call sites of \<^verbatim>\<open>_fetch_json\<close>. The log of fetches records the call site
  with the file name; the remote store sees the file name only.
\<close>

datatype slot = LicensesSlot | GlobalSlot | ServerSlot

record hub =
  app_name :: string
  current_version :: string
  hwid :: string
  licenses :: json
  global_config :: json
  server_config :: json
  user_name :: "string option"
  user_data :: json
  server_name :: "string option"
  fetches :: "(slot \<times> string) list"
  printed :: "msg list"

text \<open>
  The remote store: what the \<open>n\<close>-th request of the session, for the file of a given name,
  answers. \<open>None\<close> is any transport, status or parse error.
\<close>

type_synonym net = "nat \<Rightarrow> string \<Rightarrow> json option"

definition init :: "string \<Rightarrow> string \<Rightarrow> string \<Rightarrow> hub" where
  "init app version machine =
     \<lparr>app_name = app, current_version = version, hwid = machine,
      licenses = JNull, global_config = JNull, server_config = JNull,
      user_name = None, user_data = JNull, server_name = None,
      fetches = [], printed = []\<rparr>"

definition say :: "msg \<Rightarrow> hub \<Rightarrow> hub" where
  "say m s = s\<lparr>printed := printed s @ [m]\<rparr>"

definition fetch_json :: "net \<Rightarrow> slot \<Rightarrow> string \<Rightarrow> hub \<Rightarrow> json \<times> hub" where
  "fetch_json net sl filename s =
     (let s1 = s\<lparr>fetches := fetches s @ [(sl, filename)]\<rparr>
      in case net (length (fetches s)) filename of
           Some data \<Rightarrow> (data, s1)
         | None \<Rightarrow> (JNull, say (DocumentUnavailable filename) s1))"

definition load_licenses :: "net \<Rightarrow> hub \<Rightarrow> (abort + bool) \<times> hub" where
  "load_licenses net s =
     (if licenses s \<noteq> JNull then (Inr True, s)
      else
        (case fetch_json net LicensesSlot ''licenses.json'' s of (data, s1) \<Rightarrow>
           let s2 = s1\<lparr>licenses := data\<rparr>;
               invalid = (Inr False, say MalformedDocument (s2\<lparr>licenses := JNull\<rparr>))
           in if data = JNull then (Inr False, s2)
              else
                (case py_in ''users'' data of
                   Inl e \<Rightarrow> (Inl e, s2)
                 | Inr has_users \<Rightarrow>
                     if \<not> has_users then invalid
                     else
                       (case py_in ''apps'' data of
                          Inl e \<Rightarrow> (Inl e, s2)
                        | Inr has_apps \<Rightarrow> if \<not> has_apps then invalid else (Inr True, s2)))))"

definition load_global_config :: "net \<Rightarrow> hub \<Rightarrow> bool \<times> hub" where
  "load_global_config net s =
     (if global_config s \<noteq> JNull then (True, s)
      else
        (case fetch_json net GlobalSlot ''global.json'' s of (data, s1) \<Rightarrow>
           (data \<noteq> JNull, s1\<lparr>global_config := data\<rparr>)))"

definition load_server_config :: "net \<Rightarrow> string \<Rightarrow> hub \<Rightarrow> bool \<times> hub" where
  "load_server_config net name s =
     (if server_config s \<noteq> JNull \<and> server_name s = Some name then (True, s)
      else
        (case fetch_json net ServerSlot (name @ ''.json'') s of (data, s1) \<Rightarrow>
           (data \<noteq> JNull, s1\<lparr>server_config := data, server_name := Some name\<rparr>)))"

text \<open>The loop of \<^verbatim>\<open>_find_user\<close> over \<^verbatim>\<open>users.items()\<close>, lines 160 to 172.\<close>

fun scan_users :: "string \<Rightarrow> (string \<times> json) list \<Rightarrow> string option" where
  "scan_users machine [] = None"
| "scan_users machine ((name, user_info) # rest) =
     (case user_info of
        JStr h \<Rightarrow> if JStr h = JStr machine then Some name else scan_users machine rest
      | JObj d \<Rightarrow>
          if (case map_of d ''hwid'' of None \<Rightarrow> JNull | Some v \<Rightarrow> v) = JStr machine
          then Some name else scan_users machine rest
      | _ \<Rightarrow> scan_users machine rest)"

definition find_user :: "net \<Rightarrow> hub \<Rightarrow> (abort + string option) \<times> hub" where
  "find_user net s0 =
     (case load_licenses net s0 of
        (Inl e, s) \<Rightarrow> (Inl e, s)
      | (Inr False, s) \<Rightarrow> (Inr None, s)
      | (Inr True, s) \<Rightarrow>
          (case py_getitem (licenses s) ''users'' of
             Inl e \<Rightarrow> (Inl e, s)
           | Inr (JObj kvs) \<Rightarrow> (Inr (scan_users (hwid s) kvs), s)
           | Inr _ \<Rightarrow> (Inl AttributeError, s)))"

text \<open>
  \<^verbatim>\<open>check_license\<close> in three blocks. The version gate, lines 208 to 219: \<open>Inr True\<close>
  when the check goes on, \<open>Inr False\<close> when it has returned \<^verbatim>\<open>None\<close>.
\<close>

definition version_gate :: "hub \<Rightarrow> (abort + bool) \<times> hub" where
  "version_gate s =
     (case py_get (licenses s) ''min_version'' JNull of
        Inl e \<Rightarrow> (Inl e, s)
      | Inr min_version \<Rightarrow>
          if min_version = JNull then (Inr True, s)
          else
            (case py_int_str (current_version s) of
               None \<Rightarrow> (Inr False, say MalformedVersion s)
             | Some current \<Rightarrow>
                 (case py_int min_version of
                    Inl e \<Rightarrow> if e = ValueError then (Inr False, say MalformedVersion s)
                             else (Inl e, s)
                  | Inr minimum \<Rightarrow>
                      if current < minimum then (Inr False, say (VersionTooOld current minimum) s)
                      else (Inr True, s))))"

text \<open>The license record, lines 244 to 270; \<open>now\<close> is what \<^verbatim>\<open>datetime.now()\<close> returns.\<close>

definition check_record :: "datetime \<Rightarrow> json \<Rightarrow> hub \<Rightarrow> (abort + json) \<times> hub" where
  "check_record now rec s =
     (case py_get rec ''active'' JNull of
        Inl e \<Rightarrow> (Inl e, s)
      | Inr active \<Rightarrow>
          if active = JBool True then (py_get rec ''level'' (JStr ''TRY''), s)
          else
            (case py_get rec ''expires'' JNull of
               Inl e \<Rightarrow> (Inl e, s)
             | Inr expires \<Rightarrow>
                 if \<not> truthy expires then (Inr JNull, say LicenseInactive s)
                 else
                   (case expires of
                      JStr e \<Rightarrow>
                        (case strptime_ymd e of
                           None \<Rightarrow> (Inr JNull, say (MalformedExpiry e) s)
                         | Some expires_dt \<Rightarrow>
                             if now > midnight expires_dt
                             then (Inr JNull, say (LicenseExpired e) s)
                             else (py_get rec ''level'' (JStr ''TRY''), s))
                    | _ \<Rightarrow> (Inl TypeError, s))))"

text \<open>The application and the user's entry in it, lines 230 to 242.\<close>

definition check_app :: "datetime \<Rightarrow> string \<Rightarrow> hub \<Rightarrow> (abort + json) \<times> hub" where
  "check_app now name s =
     (case py_getitem (licenses s) ''apps'' of
        Inl e \<Rightarrow> (Inl e, s)
      | Inr apps \<Rightarrow>
          (case py_in (app_name s) apps of
             Inl e \<Rightarrow> (Inl e, s)
           | Inr False \<Rightarrow> (Inr JNull, say (ApplicationUnknown (app_name s)) s)
           | Inr True \<Rightarrow>
               (case py_getitem apps (app_name s) of
                  Inl e \<Rightarrow> (Inl e, s)
                | Inr app_users \<Rightarrow>
                    (case py_in name app_users of
                       Inl e \<Rightarrow> (Inl e, s)
                     | Inr False \<Rightarrow> (Inr JNull, say (UserNotEntitled name (app_name s)) s)
                     | Inr True \<Rightarrow>
                         (case py_getitem app_users name of
                            Inl e \<Rightarrow> (Inl e, s)
                          | Inr rec \<Rightarrow> check_record now rec (s\<lparr>user_data := rec\<rparr>))))))"

definition check_license :: "net \<Rightarrow> datetime \<Rightarrow> hub \<Rightarrow> (abort + json) \<times> hub" where
  "check_license net now s0 =
     (case load_licenses net s0 of
        (Inl e, s) \<Rightarrow> (Inl e, s)
      | (Inr False, s) \<Rightarrow> (Inr JNull, s)
      | (Inr True, s) \<Rightarrow>
          (case version_gate s of
             (Inl e, s1) \<Rightarrow> (Inl e, s1)
           | (Inr False, s1) \<Rightarrow> (Inr JNull, s1)
           | (Inr True, s1) \<Rightarrow>
               (case find_user net s1 of
                  (Inl e, s2) \<Rightarrow> (Inl e, s2)
                | (Inr None, s2) \<Rightarrow>
                    (Inr JNull, say (IdentityShown (hwid s2)) (say IdentityNotFound s2))
                | (Inr (Some name), s2) \<Rightarrow> check_app now name (s2\<lparr>user_name := Some name\<rparr>))))"

definition get_server :: "hub \<Rightarrow> (abort + json) \<times> hub" where
  "get_server s =
     (case user_name s of
        None \<Rightarrow> (Inr JNull, say CheckLicenseFirst s)
      | Some name \<Rightarrow>
          (case py_getitem (licenses s) ''users'' of
             Inl e \<Rightarrow> (Inl e, s)
           | Inr users \<Rightarrow>
               (case py_getitem users name of
                  Inl e \<Rightarrow> (Inl e, s)
                | Inr (JObj d) \<Rightarrow>
                    (let server = (case map_of d ''server'' of None \<Rightarrow> JNull | Some v \<Rightarrow> v)
                     in if truthy server then (Inr server, s) else (Inr (JStr ''global''), s))
                | Inr _ \<Rightarrow> (Inr (JStr ''global''), s))))"

text \<open>
  The search of one document, written twice in \<^verbatim>\<open>get\<close> (lines 323 to 329 and 333 to
  339): the top level first, then the values that are dicts, in order.
\<close>

fun search_sections :: "string \<Rightarrow> json list \<Rightarrow> json option" where
  "search_sections p [] = None"
| "search_sections p (section # rest) =
     (case section of
        JObj d \<Rightarrow> (case map_of d p of Some v \<Rightarrow> Some v | None \<Rightarrow> search_sections p rest)
      | _ \<Rightarrow> search_sections p rest)"

definition search_config :: "string \<Rightarrow> json \<Rightarrow> abort + json option" where
  "search_config p cfg =
     (case py_in p cfg of
        Inl e \<Rightarrow> Inl e
      | Inr True \<Rightarrow> (case py_getitem cfg p of Inl e \<Rightarrow> Inl e | Inr v \<Rightarrow> Inr (Some v))
      | Inr False \<Rightarrow>
          (case cfg of
             JObj kvs \<Rightarrow> Inr (search_sections p (map snd kvs))
           | _ \<Rightarrow> Inl AttributeError))"

text \<open>The three tiers of \<^verbatim>\<open>get\<close>; \<open>Inr None\<close> is a tier that falls through to the next.\<close>

definition user_tier :: "string \<Rightarrow> hub \<Rightarrow> abort + json option" where
  "user_tier p s =
     (if user_data s = JNull then Inr None
      else
        (case py_in p (user_data s) of
           Inl e \<Rightarrow> Inl e
         | Inr True \<Rightarrow> (case py_getitem (user_data s) p of Inl e \<Rightarrow> Inl e | Inr v \<Rightarrow> Inr (Some v))
         | Inr False \<Rightarrow> Inr None))"

definition server_tier :: "net \<Rightarrow> string \<Rightarrow> hub \<Rightarrow> (abort + json option) \<times> hub" where
  "server_tier net p s0 =
     (case get_server s0 of
        (Inl e, s) \<Rightarrow> (Inl e, s)
      | (Inr server, s) \<Rightarrow>
          if \<not> truthy server then (Inr None, s)
          else
            (case server of
               JStr name \<Rightarrow>
                 (case load_server_config net name s of
                    (True, s1) \<Rightarrow> (search_config p (server_config s1), s1)
                  | (False, s1) \<Rightarrow> (Inr None, s1))
             | _ \<Rightarrow> (Inl NotModelled, s)))"

definition global_tier :: "net \<Rightarrow> string \<Rightarrow> bool \<Rightarrow> hub \<Rightarrow> (abort + json option) \<times> hub" where
  "global_tier net p fallback s =
     (if \<not> fallback then (Inr None, s)
      else
        (case load_global_config net s of
           (True, s1) \<Rightarrow> (search_config p (global_config s1), s1)
         | (False, s1) \<Rightarrow> (Inr None, s1)))"

definition get :: "net \<Rightarrow> string \<Rightarrow> bool \<Rightarrow> hub \<Rightarrow> (abort + json) \<times> hub" where
  "get net p fallback s0 =
     (case user_tier p s0 of
        Inl e \<Rightarrow> (Inl e, s0)
      | Inr (Some v) \<Rightarrow> (Inr v, s0)
      | Inr None \<Rightarrow>
          (case server_tier net p s0 of
             (Inl e, s1) \<Rightarrow> (Inl e, s1)
           | (Inr (Some v), s1) \<Rightarrow> (Inr v, s1)
           | (Inr None, s1) \<Rightarrow>
               (case global_tier net p fallback s1 of
                  (Inl e, s2) \<Rightarrow> (Inl e, s2)
                | (Inr (Some v), s2) \<Rightarrow> (Inr v, s2)
                | (Inr None, s2) \<Rightarrow> (Inr JNull, say (ParameterNotFound p) s2))))"

section \<open>LicenseManager (\<^verbatim>\<open>license.py\<close>)\<close>

text \<open>
  The older module keeps no state between calls. A call is determined by the
  application name, the machine identity, what \<^verbatim>\<open>_fetch_licenses\<close> obtains (\<open>None\<close> when
  the request or the parse fails) and what \<^verbatim>\<open>_get_current_date_online\<close> returns; the
  result is the returned value with the lines printed.
\<close>

datatype lm_msg =
    LmFetchError                            \<comment> \<open>line 151\<close>
  | LmDocumentUnavailable                   \<comment> \<open>line 187\<close>
  | LmMalformedDocument                     \<comment> \<open>line 192\<close>
  | LmIdentityShown string                  \<comment> \<open>lines 165 to 174\<close>
  | LmIdentityNotFound                      \<comment> \<open>line 207\<close>
  | LmApplicationUnknown string             \<comment> \<open>line 213\<close>
  | LmUserNotEntitled string string         \<comment> \<open>line 219\<close>
  | LmGrantedPermanent string json          \<comment> \<open>line 227\<close>
  | LmLicenseInactive                       \<comment> \<open>line 234\<close>
  | LmDateUnavailable                       \<comment> \<open>line 240\<close>
  | LmLicenseExpired string                 \<comment> \<open>line 248\<close>
  | LmGrantedUntil string json date date    \<comment> \<open>line 253, with the two dates of the days left\<close>
  | LmMalformedDate                         \<comment> \<open>line 257\<close>

text \<open>The loop over \<^verbatim>\<open>users.items()\<close>, lines 200 to 204.\<close>

fun lm_scan_users :: "string \<Rightarrow> (string \<times> json) list \<Rightarrow> string option" where
  "lm_scan_users machine [] = None"
| "lm_scan_users machine ((name, h) # rest) =
     (if h = JStr machine then Some name else lm_scan_users machine rest)"

text \<open>The license record, lines 224 to 258.\<close>

definition lm_check_record ::
    "string \<Rightarrow> string option \<Rightarrow> json \<Rightarrow> (abort + json) \<times> lm_msg list" where
  "lm_check_record name today license_info =
     (case py_get license_info ''active'' JNull of
        Inl e \<Rightarrow> (Inl e, [])
      | Inr active \<Rightarrow>
          if active = JBool True then
            (case py_get license_info ''level'' (JStr ''TRY'') of
               Inl e \<Rightarrow> (Inl e, [])
             | Inr level \<Rightarrow> (Inr level, [LmGrantedPermanent name level]))
          else
            (case py_get license_info ''expires'' JNull of
               Inl e \<Rightarrow> (Inl e, [])
             | Inr expires \<Rightarrow>
                 if \<not> truthy expires then (Inr JNull, [LmLicenseInactive])
                 else
                   (case today of
                      None \<Rightarrow> (Inr JNull, [LmDateUnavailable])
                    | Some current_date \<Rightarrow>
                        (case expires of
                           JStr e \<Rightarrow>
                             (case strptime_ymd e of
                                None \<Rightarrow> (Inr JNull, [LmMalformedDate])
                              | Some expires_dt \<Rightarrow>
                                  (case strptime_ymd current_date of
                                     None \<Rightarrow> (Inr JNull, [LmMalformedDate])
                                   | Some current_dt \<Rightarrow>
                                       if midnight current_dt > midnight expires_dt
                                       then (Inr JNull, [LmLicenseExpired e])
                                       else
                                         (case py_get license_info ''level'' (JStr ''TRY'') of
                                            Inl e \<Rightarrow> (Inl e, [])
                                          | Inr level \<Rightarrow>
                                              (Inr level,
                                               [LmGrantedUntil name level expires_dt current_dt]))))
                         | _ \<Rightarrow> (Inl TypeError, [])))))"

text \<open>The application and the user's entry in it, lines 211 to 222.\<close>

definition lm_check_app ::
    "string \<Rightarrow> string \<Rightarrow> string option \<Rightarrow> json \<Rightarrow> (abort + json) \<times> lm_msg list" where
  "lm_check_app app name today apps =
     (case py_in app apps of
        Inl e \<Rightarrow> (Inl e, [])
      | Inr False \<Rightarrow> (Inr JNull, [LmApplicationUnknown app])
      | Inr True \<Rightarrow>
          (case py_getitem apps app of
             Inl e \<Rightarrow> (Inl e, [])
           | Inr app_users \<Rightarrow>
               (case py_in name app_users of
                  Inl e \<Rightarrow> (Inl e, [])
                | Inr False \<Rightarrow> (Inr JNull, [LmUserNotEntitled name app])
                | Inr True \<Rightarrow>
                    (case py_getitem app_users name of
                       Inl e \<Rightarrow> (Inl e, [])
                     | Inr license_info \<Rightarrow> lm_check_record name today license_info))))"

text \<open>The identity lookup and what follows it, lines 196 to 209.\<close>

definition lm_identify ::
    "string \<Rightarrow> string \<Rightarrow> string option \<Rightarrow> json \<Rightarrow> (abort + json) \<times> lm_msg list" where
  "lm_identify app machine today licenses_data =
     (case py_getitem licenses_data ''users'' of
        Inl e \<Rightarrow> (Inl e, [])
      | Inr users \<Rightarrow>
          (case py_getitem licenses_data ''apps'' of
             Inl e \<Rightarrow> (Inl e, [])
           | Inr apps \<Rightarrow>
               (case users of
                  JObj kvs \<Rightarrow>
                    (case lm_scan_users machine kvs of
                       None \<Rightarrow> (Inr JNull, [LmIdentityNotFound, LmIdentityShown machine])
                     | Some name \<Rightarrow> lm_check_app app name today apps)
                | _ \<Rightarrow> (Inl AttributeError, []))))"

definition lm_check_license ::
    "string \<Rightarrow> string \<Rightarrow> json option \<Rightarrow> string option \<Rightarrow> (abort + json) \<times> lm_msg list" where
  "lm_check_license app machine fetched today =
     (case fetched of
        None \<Rightarrow> (Inr JNull, [LmFetchError, LmDocumentUnavailable, LmIdentityShown machine])
      | Some licenses_data \<Rightarrow>
          let invalid = (Inr JNull, [LmMalformedDocument, LmIdentityShown machine])
          in if licenses_data = JNull then
               (Inr JNull, [LmDocumentUnavailable, LmIdentityShown machine])
             else
               (case py_in ''users'' licenses_data of
                  Inl e \<Rightarrow> (Inl e, [])
                | Inr has_users \<Rightarrow>
                    if \<not> has_users then invalid
                    else
                      (case py_in ''apps'' licenses_data of
                         Inl e \<Rightarrow> (Inl e, [])
                       | Inr has_apps \<Rightarrow>
                           if \<not> has_apps then invalid
                           else lm_identify app machine today licenses_data)))"

section \<open>Reading the session\<close>

text \<open>The file names requested so far from one call site, oldest first.\<close>

definition fetched_by :: "slot \<Rightarrow> hub \<Rightarrow> string list" where
  "fetched_by sl s = map snd (filter (\<lambda>e. fst e = sl) (fetches s))"

text \<open>
  The identity an entry of \<^verbatim>\<open>users\<close> carries, in the words of the specification: the
  string itself in the legacy form, the \<^verbatim>\<open>hwid\<close> field in the record form.
\<close>

fun identity_field :: "json \<Rightarrow> json" where
  "identity_field (JStr h) = JStr h"
| "identity_field (JObj d) = (case map_of d ''hwid'' of None \<Rightarrow> JNull | Some v \<Rightarrow> v)"
| "identity_field v = JNull"

section \<open>A sample store\<close>

text \<open>
  A licenses file with a user in each form, a server file and a global file. The
  parameter \<^verbatim>\<open>delay\<close> of the server file sits in a section that comes before the
  top-level key of the same name.
\<close>


definition example_licenses :: json where
  "example_licenses = JObj
     [(''users'', JObj
         [(''Pavel'', JStr ''H1''),
          (''Evgen'', JObj [(''hwid'', JStr ''H2''), (''server'', JStr ''alure'')])]),
      (''apps'', JObj
         [(''joystick'', JObj
             [(''Pavel'', JObj [(''level'', JStr ''PRO''), (''expires'', JStr ''2020-01-01''),
                                (''active'', JBool True)]),
              (''Evgen'', JObj [(''expires'', JStr ''2025-06-15''), (''a'', JInt 1)])])]),
      (''min_version'', JStr ''5'')]"

definition example_alure :: json where
  "example_alure = JObj
     [(''offsets'', JObj [(''delay'', JInt 1), (''CHAT'', JInt 16)]),
      (''delay'', JInt 2), (''a'', JInt 2)]"

definition example_global :: json where
  "example_global = JObj
     [(''patterns'', JObj [(''timeout'', JInt 11), (''mask'', JInt 12)]),
      (''delay'', JInt 3), (''CHAT'', JInt 9), (''timeout'', JInt 10), (''a'', JInt 3)]"

definition example_net :: net where
  "example_net n filename =
     (if filename = ''licenses.json'' then Some example_licenses
      else if filename = ''alure.json'' then Some example_alure
      else if filename = ''global.json'' then Some example_global
      else None)"

text \<open>A store whose licenses file has no \<^verbatim>\<open>users\<close> key.\<close>

definition example_net_no_users :: net where
  "example_net_no_users n filename = Some (JObj [(''apps'', JObj [])])"

text \<open>
  The session of each user after a license check on the first of June 2025, client
  version 5.
\<close>

definition evgen_session :: hub where
  "evgen_session = snd (check_license example_net ((2025, 6, 1), 0) (init ''joystick'' ''5'' ''H2''))"

definition pavel_session :: hub where
  "pavel_session = snd (check_license example_net ((2025, 6, 1), 0) (init ''joystick'' ''5'' ''H1''))"

text \<open>
  The sample store with another global file, and a store that answers no request.
\<close>

definition example_net_other_global :: net where
  "example_net_other_global n filename =
     (if filename = ''global.json'' then Some (JObj [(''timeout'', JInt 99)])
      else example_net n filename)"

definition example_net_down :: net where
  "example_net_down n filename = None"


lemmas example_defs = example_net_def example_licenses_def example_alure_def example_global_def

lemmas parse_defs = py_int_str_def strip_def is_space_def parse_unsigned_def is_digit_def
  int_max_str_digits_def
  digit_val_def strptime_ymd_def is_pos_digit_def valid_date_def days_in_month_def is_leap_def
  midnight_def

lemmas run_defs = init_def say_def fetch_json_def load_licenses_def load_global_config_def
  load_server_config_def find_user_def version_gate_def check_record_def check_app_def
  check_license_def get_server_def search_config_def user_tier_def server_tier_def
  global_tier_def get_def

section \<open>Loading the licenses file\<close>

lemma load_licenses_cached: "licenses s \<noteq> JNull \<Longrightarrow> load_licenses net s = (Inr True, s)"
  by (simp add: load_licenses_def)

lemma load_licenses_True: "load_licenses net s = (Inr True, s1) \<Longrightarrow> licenses s1 \<noteq> JNull"
  by (auto simp: load_licenses_def fetch_json_def say_def Let_def split: if_splits option.splits sum.splits prod.splits)

lemma load_licenses_fields:
  "load_licenses net s = (r, s1) \<Longrightarrow>
     app_name s1 = app_name s \<and> current_version s1 = current_version s \<and> hwid s1 = hwid s
     \<and> user_name s1 = user_name s \<and> user_data s1 = user_data s
     \<and> global_config s1 = global_config s \<and> server_config s1 = server_config s
     \<and> server_name s1 = server_name s"
  by (auto simp: load_licenses_def fetch_json_def say_def Let_def split: if_splits option.splits sum.splits prod.splits)

lemma version_gate_pass: "fst (version_gate s) = Inr True \<Longrightarrow> version_gate s = (Inr True, s)"
  by (auto simp: version_gate_def say_def split: sum.splits option.splits if_splits)

lemma find_user_loaded:
  "licenses s = JObj L \<Longrightarrow> map_of L ''users'' = Some (JObj U) \<Longrightarrow>
   find_user net s = (Inr (scan_users (hwid s) U), s)"
  by (simp add: find_user_def load_licenses_def)

lemma check_license_identified:
  assumes "load_licenses net s0 = (Inr True, s1)" and "licenses s1 = JObj L"
    and "fst (version_gate s1) = Inr True" and "map_of L ''users'' = Some (JObj U)"
  shows "check_license net now s0 =
    (case scan_users (hwid s0) U of
       None \<Rightarrow> (Inr JNull, say (IdentityShown (hwid s0)) (say IdentityNotFound s1))
     | Some name \<Rightarrow> check_app now name (s1\<lparr>user_name := Some name\<rparr>))"
proof -
  have h: "hwid s1 = hwid s0" using load_licenses_fields [OF assms(1)] by simp
  have "hwid (say IdentityNotFound s1) = hwid s0" using h by (simp add: say_def)
  then show ?thesis
  using assms h version_gate_pass [OF assms(3)] find_user_loaded [OF assms(2) assms(4), of net]
  by (simp add: check_license_def say_def split: option.splits)
qed

lemma example_load:
  "load_licenses example_net (init app v h) =
     (Inr True, (init app v h)\<lparr>licenses := example_licenses,
                                fetches := [(LicensesSlot, ''licenses.json'')]\<rparr>)"
  by (simp add: load_licenses_def fetch_json_def init_def example_defs)

lemma evgen_session_eq:
  "check_license example_net ((2025, 6, 1), 0) (init ''joystick'' ''5'' ''H2'') =
     (Inr (JStr ''TRY''), evgen_session)
   \<and> evgen_session =
     (init ''joystick'' ''5'' ''H2'')
       \<lparr>licenses := example_licenses, fetches := [(LicensesSlot, ''licenses.json'')],
        user_name := Some ''Evgen'',
        user_data := JObj [(''expires'', JStr ''2025-06-15''), (''a'', JInt 1)]\<rparr>"
  by (simp add: evgen_session_def run_defs example_defs parse_defs)

lemma pavel_session_eq:
  "check_license example_net ((2025, 6, 1), 0) (init ''joystick'' ''5'' ''H1'') =
     (Inr (JStr ''PRO''), pavel_session)
   \<and> pavel_session =
     (init ''joystick'' ''5'' ''H1'')
       \<lparr>licenses := example_licenses, fetches := [(LicensesSlot, ''licenses.json'')],
        user_name := Some ''Pavel'',
        user_data := JObj [(''level'', JStr ''PRO''), (''expires'', JStr ''2020-01-01''),
                           (''active'', JBool True)]\<rparr>"
  by (simp add: pavel_session_def run_defs example_defs parse_defs)

lemma find_user_Some:
  assumes "find_user net s = (Inr (Some name), s')" and "licenses s \<noteq> JNull"
  shows "s' = s \<and> (\<exists>L U. licenses s = JObj L \<and> map_of L ''users'' = Some (JObj U)
                       \<and> scan_users (hwid s) U = Some name)"
  using assms
  by (cases "licenses s")
     (auto simp: find_user_def load_licenses_cached split: sum.splits json.splits option.splits)

lemma check_record_frame:
  "licenses (snd (check_record now rec s)) = licenses s
   \<and> user_name (snd (check_record now rec s)) = user_name s
   \<and> fetches (snd (check_record now rec s)) = fetches s"
  by (auto simp: check_record_def say_def split: sum.splits json.splits option.splits)

lemma check_app_frame:
  "licenses (snd (check_app now name s)) = licenses s
   \<and> user_name (snd (check_app now name s)) = user_name s
   \<and> fetches (snd (check_app now name s)) = fetches s"
  using check_record_frame
  by (auto simp: check_app_def say_def split: sum.splits bool.splits)

lemma check_license_sets_user_name:
  assumes "load_licenses net s0 = (Inr True, s1)" and "licenses s1 = JObj L"
    and "fst (version_gate s1) = Inr True" and "map_of L ''users'' = Some (JObj U)"
    and "scan_users (hwid s0) U = Some name"
  shows "user_name (snd (check_license net now s0)) = Some name
         \<and> licenses (snd (check_license net now s0)) = JObj L"
  using check_license_identified [OF assms(1-4), of now] assms(2,5) check_app_frame
  by simp

lemma check_license_returns:
  assumes "check_license net now s0 = (Inr level, s1)" and "level \<noteq> JNull"
  shows "\<exists>name L U. user_name s1 = Some name \<and> licenses s1 = JObj L
           \<and> map_of L ''users'' = Some (JObj U) \<and> scan_users (hwid s0) U = Some name"
proof -
  obtain r1 sa where l: "load_licenses net s0 = (r1, sa)" by fastforce
  have r1: "r1 = Inr True"
    using assms l by (auto simp: check_license_def split: sum.splits bool.splits)
  have sa: "licenses sa \<noteq> JNull" using l r1 load_licenses_True by blast
  have h: "hwid sa = hwid s0" using load_licenses_fields [OF l] by simp
  obtain r2 sb where g: "version_gate sa = (r2, sb)" by fastforce
  have r2: "r2 = Inr True"
    using assms l r1 g by (auto simp: check_license_def split: sum.splits bool.splits)
  have sb: "sb = sa" using version_gate_pass [of sa] g r2 by simp
  obtain r3 sc where f: "find_user net sa = (r3, sc)" by fastforce
  obtain name where r3: "r3 = Inr (Some name)"
    using assms l r1 g r2 sb f
    by (auto simp: check_license_def split: sum.splits option.splits)
  obtain L U where sc: "sc = sa" and doc: "licenses sa = JObj L"
      "map_of L ''users'' = Some (JObj U)" "scan_users (hwid sa) U = Some name"
    using find_user_Some [of net sa name sc] f r3 sa by auto
  have "check_app now name (sa\<lparr>user_name := Some name\<rparr>) = (Inr level, s1)"
    using assms(1) l r1 g r2 sb f r3 sc by (simp add: check_license_def)
  then have "user_name s1 = Some name \<and> licenses s1 = licenses sa"
    using check_app_frame [of now name "sa\<lparr>user_name := Some name\<rparr>"] by simp
  then show ?thesis using doc h by auto
qed

lemma scan_users_find:
  "scan_users machine U = map_option fst (find (\<lambda>e. identity_field (snd e) = JStr machine) U)"
  by (induction U) (auto split: json.splits)

lemma lm_scan_users_find:
  "lm_scan_users machine U = map_option fst (find (\<lambda>e. snd e = JStr machine) U)"
  by (induction U) auto

lemma scan_users_key: "scan_users machine U = Some name \<Longrightarrow> map_of U name \<noteq> None"
  by (induction U) (auto split: json.splits if_splits)

lemma check_record_by_datetime:
  assumes "map_of r ''active'' \<noteq> Some (JBool True)"
    and "map_of r ''expires'' = Some (JStr e)" and "strptime_ymd e = Some d"
  shows "check_record now (JObj r) s =
     (if now > midnight d then (Inr JNull, say (LicenseExpired e) s)
      else (Inr (case map_of r ''level'' of None \<Rightarrow> JStr ''TRY'' | Some level \<Rightarrow> level), s))"
proof -
  have "e \<noteq> []" using assms(3) by (auto simp: strptime_ymd_def)
  then show ?thesis using assms by (auto simp: check_record_def split: option.splits)
qed

lemma lm_check_record_by_date:
  assumes "map_of r ''active'' \<noteq> Some (JBool True)"
    and "map_of r ''expires'' = Some (JStr e)" and "strptime_ymd e = Some d"
    and "strptime_ymd today = Some c"
  shows "lm_check_record name (Some today) (JObj r) =
     (if c > d then (Inr JNull, [LmLicenseExpired e])
      else (Inr (case map_of r ''level'' of None \<Rightarrow> JStr ''TRY'' | Some level \<Rightarrow> level),
            [LmGrantedUntil name
               (case map_of r ''level'' of None \<Rightarrow> JStr ''TRY'' | Some level \<Rightarrow> level) d c]))"
proof -
  have "e \<noteq> []" using assms(3) by (auto simp: strptime_ymd_def)
  then show ?thesis using assms by (auto simp: lm_check_record_def midnight_def split: option.splits)
qed

section \<open>The license check\<close>

text \<open>
  C2. A record whose \<^verbatim>\<open>active\<close> field is \<^verbatim>\<open>true\<close> is granted: once the document
  is loaded, the version gate passed and the identity found, \<^verbatim>\<open>check_license\<close> of
  both modules returns the record's \<^verbatim>\<open>level\<close>, or \<^verbatim>\<open>"TRY"\<close> when the record has
  none. Nothing is assumed of \<^verbatim>\<open>expires\<close>, and the result is the same for every current
  date (\<open>now\<close>, \<open>today\<close>), including no date at all.
\<close>

theorem active_license_granted:
  assumes "map_of r ''active'' = Some (JBool True)"
    and "map_of AU name = Some (JObj r)"
    and "map_of A app = Some (JObj AU)"
    and "map_of L ''apps'' = Some (JObj A)"
    and "map_of L ''users'' = Some (JObj U)"
  shows "(load_licenses net s0 = (Inr True, s1) \<and> licenses s1 = JObj L \<and> app_name s0 = app
          \<and> fst (version_gate s1) = Inr True \<and> scan_users (hwid s0) U = Some name \<longrightarrow>
            check_license net now s0 =
              (Inr (case map_of r ''level'' of None \<Rightarrow> JStr ''TRY'' | Some level \<Rightarrow> level),
               s1\<lparr>user_name := Some name, user_data := JObj r\<rparr>))
       \<and> (lm_scan_users machine U = Some name \<longrightarrow>
            lm_check_license app machine (Some (JObj L)) today =
              (Inr (case map_of r ''level'' of None \<Rightarrow> JStr ''TRY'' | Some level \<Rightarrow> level),
               [LmGrantedPermanent name
                  (case map_of r ''level'' of None \<Rightarrow> JStr ''TRY'' | Some level \<Rightarrow> level)]))"
proof (intro conjI impI)
  assume a: "load_licenses net s0 = (Inr True, s1) \<and> licenses s1 = JObj L \<and> app_name s0 = app
          \<and> fst (version_gate s1) = Inr True \<and> scan_users (hwid s0) U = Some name"
  then have app: "app_name s1 = app" using load_licenses_fields [of net s0 "Inr True" s1] by simp
  have "check_license net now s0 = check_app now name (s1\<lparr>user_name := Some name\<rparr>)"
    using check_license_identified [of net s0 s1 L U now] a assms(5) by simp
  then show "check_license net now s0 =
              (Inr (case map_of r ''level'' of None \<Rightarrow> JStr ''TRY'' | Some level \<Rightarrow> level),
               s1\<lparr>user_name := Some name, user_data := JObj r\<rparr>)"
    using assms a app by (simp add: check_app_def check_record_def)
next
  assume "lm_scan_users machine U = Some name"
  then show "lm_check_license app machine (Some (JObj L)) today =
              (Inr (case map_of r ''level'' of None \<Rightarrow> JStr ''TRY'' | Some level \<Rightarrow> level),
               [LmGrantedPermanent name
                  (case map_of r ''level'' of None \<Rightarrow> JStr ''TRY'' | Some level \<Rightarrow> level)])"
    using assms
    by (simp add: lm_check_license_def lm_identify_def lm_check_app_def lm_check_record_def)
qed

theorem active_license_granted_witness:
  "check_license example_net ((2025, 6, 1), 0) (init ''joystick'' ''5'' ''H1'') =
     (Inr (JStr ''PRO''),
      (init ''joystick'' ''5'' ''H1'')
        \<lparr>licenses := example_licenses, fetches := [(LicensesSlot, ''licenses.json'')],
         user_name := Some ''Pavel'',
         user_data := JObj [(''level'', JStr ''PRO''), (''expires'', JStr ''2020-01-01''),
                            (''active'', JBool True)]\<rparr>)
   \<and> lm_check_license ''joystick'' ''H1'' (Some example_licenses) None =
     (Inr (JStr ''PRO''), [LmGrantedPermanent ''Pavel'' (JStr ''PRO'')])"
proof -
  let ?r = "[(''level'', JStr ''PRO''), (''expires'', JStr ''2020-01-01''), (''active'', JBool True)]"
  let ?AU = "[(''Pavel'', JObj ?r), (''Evgen'', JObj [(''expires'', JStr ''2025-06-15''), (''a'', JInt 1)])]"
  let ?A = "[(''joystick'', JObj ?AU)]"
  let ?U = "[(''Pavel'', JStr ''H1''),
             (''Evgen'', JObj [(''hwid'', JStr ''H2''), (''server'', JStr ''alure'')])]"
  let ?L = "[(''users'', JObj ?U), (''apps'', JObj ?A), (''min_version'', JStr ''5'')]"
  let ?s0 = "init ''joystick'' ''5'' ''H1''"
  let ?s1 = "?s0\<lparr>licenses := example_licenses, fetches := [(LicensesSlot, ''licenses.json'')]\<rparr>"
  have doc: "example_licenses = JObj ?L" by (simp add: example_licenses_def)
  have h1: "map_of ?r ''active'' = Some (JBool True)" by simp
  have h2: "map_of ?AU ''Pavel'' = Some (JObj ?r)" by simp
  have h3: "map_of ?A ''joystick'' = Some (JObj ?AU)" by simp
  have h4: "map_of ?L ''apps'' = Some (JObj ?A)" by simp
  have h5: "map_of ?L ''users'' = Some (JObj ?U)" by simp
  have hub: "load_licenses example_net ?s0 = (Inr True, ?s1) \<and> licenses ?s1 = JObj ?L
      \<and> app_name ?s0 = ''joystick'' \<and> fst (version_gate ?s1) = Inr True
      \<and> scan_users (hwid ?s0) ?U = Some ''Pavel''"
    by (simp add: load_licenses_def fetch_json_def init_def example_defs version_gate_def parse_defs)
  have lm: "lm_scan_users ''H1'' ?U = Some ''Pavel''" by simp
  show ?thesis
    using active_license_granted [OF h1 h2 h3 h4 h5, of example_net ?s0 ?s1 "((2025, 6, 1), 0)"
        "''H1''" None] hub lm doc
    by simp
qed

lemma parse_unsigned_limit:
  "int_max_str_digits < length (filter is_digit s) \<Longrightarrow> parse_unsigned s = None"
  by (cases s) (auto simp: parse_unsigned_def)

lemma py_int_str_examples:
  "py_int_str '' 12_3 '' = Some 123 \<and> py_int_str ''-5'' = Some (- 5)
   \<and> py_int_str ''4.2'' = None \<and> py_int_str ''1__2'' = None \<and> py_int_str [] = None
   \<and> py_int_str [CHR 0x1F, CHR ''4''] = None \<and> py_int_str [CHR ''4'', CHR 0x1C] = None"
  by (simp add: parse_defs)




text \<open>
  C8. A fetched licenses file that is a mapping without \<^verbatim>\<open>users\<close> or without
  \<^verbatim>\<open>apps\<close> is denied by both modules with a returned \<^verbatim>\<open>None\<close>, not an exception,
  and with a line of its own. In AppHub the session is left as a failed fetch leaves it
  (second conjunct), the printed line apart: the cache slot stays empty.
\<close>

theorem malformed_document_denied:
  assumes "map_of L ''users'' = None \<or> map_of L ''apps'' = None"
  shows "(licenses s0 = JNull \<and> net (length (fetches s0)) ''licenses.json'' = Some (JObj L) \<longrightarrow>
            check_license net now s0 =
              (Inr JNull, say MalformedDocument
                 (s0\<lparr>fetches := fetches s0 @ [(LicensesSlot, ''licenses.json'')]\<rparr>)))
       \<and> (licenses s0 = JNull \<and> net (length (fetches s0)) ''licenses.json'' = None \<longrightarrow>
            check_license net now s0 =
              (Inr JNull, say (DocumentUnavailable ''licenses.json'')
                 (s0\<lparr>fetches := fetches s0 @ [(LicensesSlot, ''licenses.json'')]\<rparr>)))
       \<and> lm_check_license app machine (Some (JObj L)) today =
            (Inr JNull, [LmMalformedDocument, LmIdentityShown machine])"
  using assms
  by (auto simp: check_license_def load_licenses_def fetch_json_def say_def lm_check_license_def Let_def)

theorem malformed_document_denied_witness:
  "check_license example_net_no_users ((2025, 6, 1), 0) (init ''joystick'' ''5'' ''H1'') =
     (Inr JNull, say MalformedDocument
        ((init ''joystick'' ''5'' ''H1'')\<lparr>fetches := [(LicensesSlot, ''licenses.json'')]\<rparr>))
   \<and> check_license example_net_down ((2025, 6, 1), 0) (init ''joystick'' ''5'' ''H1'') =
     (Inr JNull, say (DocumentUnavailable ''licenses.json'')
        ((init ''joystick'' ''5'' ''H1'')\<lparr>fetches := [(LicensesSlot, ''licenses.json'')]\<rparr>))
   \<and> lm_check_license ''joystick'' ''H1'' (Some (JObj [(''apps'', JObj [])])) None =
     (Inr JNull, [LmMalformedDocument, LmIdentityShown ''H1''])"
proof -
  have missing: "map_of [(''apps'', JObj [])] ''users'' = None
                 \<or> map_of [(''apps'', JObj [])] ''apps'' = None"
    by simp
  have fresh: "licenses (init ''joystick'' ''5'' ''H1'') = JNull
      \<and> example_net_no_users (length (fetches (init ''joystick'' ''5'' ''H1''))) ''licenses.json''
          = Some (JObj [(''apps'', JObj [])])"
    by (simp add: init_def example_net_no_users_def)
  have log: "fetches (init ''joystick'' ''5'' ''H1'') = []"
    by (simp add: init_def)
  have down: "licenses (init ''joystick'' ''5'' ''H1'') = JNull
      \<and> example_net_down (length (fetches (init ''joystick'' ''5'' ''H1''))) ''licenses.json'' = None"
    by (simp add: init_def example_net_down_def)
  show ?thesis
    using malformed_document_denied [OF missing, of "init ''joystick'' ''5'' ''H1''"
        example_net_no_users "((2025, 6, 1), 0)" "''joystick''" "''H1''" None] fresh log
      malformed_document_denied [OF missing, of "init ''joystick'' ''5'' ''H1''"
        example_net_down "((2025, 6, 1), 0)"] down
    by simp
qed


text \<open>
  C3, as amended. \<^verbatim>\<open>AppHub._find_user\<close> scans \<^verbatim>\<open>users\<close> in document order and
  resolves to the name of the first entry whose identity field (the string itself, or
  the \<^verbatim>\<open>hwid\<close> field of a record) equals the machine identity; the check then records
  that name. The loop of \<^verbatim>\<open>LicenseManager.check_license\<close> compares the entry itself
  with the identity: it resolves to the first legacy entry that equals it and passes over
  every record entry. In both modules the check is denied with the identity-not-found
  line when the scan finds no entry.
\<close>

theorem identity_lookup_first_match:
  "scan_users machine U = map_option fst (find (\<lambda>e. identity_field (snd e) = JStr machine) U)
   \<and> lm_scan_users machine U = map_option fst (find (\<lambda>e. snd e = JStr machine) U)
   \<and> lm_scan_users machine ((other, JObj d) # U) = lm_scan_users machine U
   \<and> (load_licenses net s0 = (Inr True, s1) \<and> licenses s1 = JObj L
        \<and> fst (version_gate s1) = Inr True \<and> map_of L ''users'' = Some (JObj U) \<longrightarrow>
        (scan_users (hwid s0) U = Some name \<longrightarrow>
           user_name (snd (check_license net now s0)) = Some name)
      \<and> (scan_users (hwid s0) U = None \<longrightarrow>
           check_license net now s0 =
             (Inr JNull, say (IdentityShown (hwid s0)) (say IdentityNotFound s1))))
   \<and> (map_of L ''users'' = Some (JObj U) \<and> map_of L ''apps'' = Some A
        \<and> lm_scan_users machine U = None \<longrightarrow>
        lm_check_license app machine (Some (JObj L)) today =
          (Inr JNull, [LmIdentityNotFound, LmIdentityShown machine]))"
proof (intro conjI impI)
  show "scan_users machine U = map_option fst (find (\<lambda>e. identity_field (snd e) = JStr machine) U)"
    by (rule scan_users_find)
  show "lm_scan_users machine U = map_option fst (find (\<lambda>e. snd e = JStr machine) U)"
    by (rule lm_scan_users_find)
  show "lm_scan_users machine ((other, JObj d) # U) = lm_scan_users machine U"
    by simp
next
  assume a: "load_licenses net s0 = (Inr True, s1) \<and> licenses s1 = JObj L
        \<and> fst (version_gate s1) = Inr True \<and> map_of L ''users'' = Some (JObj U)"
  { assume "scan_users (hwid s0) U = Some name"
    then show "user_name (snd (check_license net now s0)) = Some name"
      using check_license_sets_user_name [of net s0 s1 L U name now] a by simp }
  { assume "scan_users (hwid s0) U = None"
    then show "check_license net now s0 =
             (Inr JNull, say (IdentityShown (hwid s0)) (say IdentityNotFound s1))"
      using check_license_identified [of net s0 s1 L U now] a by simp }
next
  assume "map_of L ''users'' = Some (JObj U) \<and> map_of L ''apps'' = Some A
        \<and> lm_scan_users machine U = None"
  then show "lm_check_license app machine (Some (JObj L)) today =
          (Inr JNull, [LmIdentityNotFound, LmIdentityShown machine])"
    by (simp add: lm_check_license_def lm_identify_def)
qed

theorem identity_lookup_first_match_witness:
  "user_name (snd (check_license example_net ((2025, 6, 1), 0) (init ''joystick'' ''5'' ''H2'')))
     = Some ''Evgen''
   \<and> check_license example_net ((2025, 6, 1), 0) (init ''joystick'' ''5'' ''H9'') =
       (Inr JNull, say (IdentityShown ''H9'') (say IdentityNotFound
          ((init ''joystick'' ''5'' ''H9'')
             \<lparr>licenses := example_licenses, fetches := [(LicensesSlot, ''licenses.json'')]\<rparr>)))
   \<and> lm_check_license ''joystick'' ''H9'' (Some example_licenses) None =
       (Inr JNull, [LmIdentityNotFound, LmIdentityShown ''H9''])"
proof -
  let ?U = "[(''Pavel'', JStr ''H1''),
             (''Evgen'', JObj [(''hwid'', JStr ''H2''), (''server'', JStr ''alure'')])]"
  let ?A = "JObj
         [(''joystick'', JObj
             [(''Pavel'', JObj [(''level'', JStr ''PRO''), (''expires'', JStr ''2020-01-01''),
                                (''active'', JBool True)]),
              (''Evgen'', JObj [(''expires'', JStr ''2025-06-15''), (''a'', JInt 1)])])]"
  let ?L = "[(''users'', JObj ?U), (''apps'', ?A), (''min_version'', JStr ''5'')]"
  let ?now = "((2025, 6, 1), 0) :: datetime"
  have doc: "example_licenses = JObj ?L" by (simp add: example_licenses_def)
  have pre: "load_licenses example_net (init ''joystick'' ''5'' h) =
        (Inr True, (init ''joystick'' ''5'' h)\<lparr>licenses := example_licenses,
                                fetches := [(LicensesSlot, ''licenses.json'')]\<rparr>)
      \<and> licenses ((init ''joystick'' ''5'' h)\<lparr>licenses := example_licenses,
                                fetches := [(LicensesSlot, ''licenses.json'')]\<rparr>) = JObj ?L
      \<and> fst (version_gate ((init ''joystick'' ''5'' h)\<lparr>licenses := example_licenses,
                                fetches := [(LicensesSlot, ''licenses.json'')]\<rparr>)) = Inr True
      \<and> map_of ?L ''users'' = Some (JObj ?U)" for h
    by (simp add: example_load) (simp add: init_def example_licenses_def version_gate_def parse_defs)
  have found: "scan_users (hwid (init ''joystick'' ''5'' ''H2'')) ?U = Some ''Evgen''"
    by (simp add: init_def)
  have missing: "scan_users (hwid (init ''joystick'' ''5'' ''H9'')) ?U = None"
    by (simp add: init_def)
  have lm: "map_of ?L ''users'' = Some (JObj ?U) \<and> map_of ?L ''apps'' = Some ?A
        \<and> lm_scan_users ''H9'' ?U = None"
    by simp
  have h9: "hwid (init ''joystick'' ''5'' ''H9'') = ''H9''" by (simp add: init_def)
  have one: "user_name (snd (check_license example_net ?now (init ''joystick'' ''5'' ''H2'')))
     = Some ''Evgen''"
    using identity_lookup_first_match [of _ ?U _ _ example_net "init ''joystick'' ''5'' ''H2''" _ ?L
        "''Evgen''" ?now] pre [of "''H2''"] found
    by blast
  have two: "check_license example_net ?now (init ''joystick'' ''5'' ''H9'') =
       (Inr JNull, say (IdentityShown ''H9'') (say IdentityNotFound
          ((init ''joystick'' ''5'' ''H9'')
             \<lparr>licenses := example_licenses, fetches := [(LicensesSlot, ''licenses.json'')]\<rparr>)))"
    using identity_lookup_first_match [of _ ?U _ _ example_net "init ''joystick'' ''5'' ''H9''" _ ?L
        _ ?now] pre [of "''H9''"] missing h9
    by metis
  have three: "lm_check_license ''joystick'' ''H9'' (Some example_licenses) None =
       (Inr JNull, [LmIdentityNotFound, LmIdentityShown ''H9''])"
    using identity_lookup_first_match [of "''H9''" ?U _ _ _ _ _ ?L _ _ ?A "''joystick''" None] lm doc
    by simp
  show ?thesis using one two three by simp
qed

text \<open>
  C3 as stated fails in license.py: the only entry is a record whose \<^verbatim>\<open>hwid\<close> is the
  machine identity, and the check ends with identity not found; the same entry in the
  legacy form is granted.
\<close>

theorem record_entry_not_found_by_license_manager:
  "lm_check_license ''joystick'' ''H2''
     (Some (JObj [(''users'', JObj [(''Evgen'', JObj [(''hwid'', JStr ''H2'')])]),
                  (''apps'', JObj [(''joystick'', JObj [(''Evgen'', JObj [(''active'', JBool True)])])])]))
     None
   = (Inr JNull, [LmIdentityNotFound, LmIdentityShown ''H2''])
   \<and> lm_check_license ''joystick'' ''H2''
     (Some (JObj [(''users'', JObj [(''Evgen'', JStr ''H2'')]),
                  (''apps'', JObj [(''joystick'', JObj [(''Evgen'', JObj [(''active'', JBool True)])])])]))
     None
   = (Inr (JStr ''TRY''), [LmGrantedPermanent ''Evgen'' (JStr ''TRY'')])"
  by (simp add: lm_check_license_def lm_identify_def lm_check_app_def lm_check_record_def)

text \<open>
  C4 on the day of expiry. The record expires on 2025-06-15 and is not active. At noon
  of that day \<^verbatim>\<open>AppHub.check_license\<close> denies with the license-expired line, because
  \<^verbatim>\<open>datetime.now()\<close> carries the time of day and is compared with midnight of the day
  of expiry; \<^verbatim>\<open>LicenseManager\<close> compares two dates and grants the same record on the
  same day.
\<close>

theorem expiry_day_denied_by_app_hub:
  "check_license example_net ((2025, 6, 15), 43200000000) (init ''joystick'' ''5'' ''H2'') =
     (Inr JNull, say (LicenseExpired ''2025-06-15'')
        ((init ''joystick'' ''5'' ''H2'')
           \<lparr>licenses := example_licenses, fetches := [(LicensesSlot, ''licenses.json'')],
            user_name := Some ''Evgen'',
            user_data := JObj [(''expires'', JStr ''2025-06-15''), (''a'', JInt 1)]\<rparr>))
   \<and> lm_check_record ''Evgen'' (Some ''2025-06-15'')
        (JObj [(''expires'', JStr ''2025-06-15''), (''a'', JInt 1)]) =
     (Inr (JStr ''TRY''), [LmGrantedUntil ''Evgen'' (JStr ''TRY'') (2025, 6, 15) (2025, 6, 15)])"
  by (simp add: run_defs example_defs parse_defs lm_check_record_def)

section \<open>The server name\<close>

text \<open>
  C9, as amended. \<^verbatim>\<open>get_server\<close> returns the error signal exactly while no check has
  resolved the machine identity. Once \<^verbatim>\<open>_user_name\<close> is set it returns the
  \<^verbatim>\<open>server\<close> field of the user's entry when the entry is a mapping with a non-empty
  field, and \<^verbatim>\<open>"global"\<close> in every other case. Every check that returns a level has
  set \<^verbatim>\<open>_user_name\<close> to a user of the loaded document.
\<close>

theorem get_server_after_identification:
  "(user_name s = None \<longrightarrow> get_server s = (Inr JNull, say CheckLicenseFirst s))
   \<and> (user_name s = Some name \<and> licenses s = JObj L \<and> map_of L ''users'' = Some (JObj U)
        \<and> map_of U name = Some info \<longrightarrow>
        get_server s =
          (Inr (case info of
                  JObj d \<Rightarrow>
                    (case map_of d ''server'' of
                       None \<Rightarrow> JStr ''global''
                     | Some server \<Rightarrow> if truthy server then server else JStr ''global'')
                | _ \<Rightarrow> JStr ''global''), s))
   \<and> (check_license net now s0 = (Inr level, s1) \<and> level \<noteq> JNull \<longrightarrow>
        (\<exists>name' L' U' info'. user_name s1 = Some name' \<and> licenses s1 = JObj L'
           \<and> map_of L' ''users'' = Some (JObj U') \<and> map_of U' name' = Some info'))"
proof (intro conjI impI)
  assume "user_name s = None"
  then show "get_server s = (Inr JNull, say CheckLicenseFirst s)"
    by (simp add: get_server_def)
next
  assume "user_name s = Some name \<and> licenses s = JObj L \<and> map_of L ''users'' = Some (JObj U)
        \<and> map_of U name = Some info"
  then show "get_server s =
          (Inr (case info of
                  JObj d \<Rightarrow>
                    (case map_of d ''server'' of
                       None \<Rightarrow> JStr ''global''
                     | Some server \<Rightarrow> if truthy server then server else JStr ''global'')
                | _ \<Rightarrow> JStr ''global''), s)"
    by (cases info) (auto simp: get_server_def split: option.splits)
next
  assume "check_license net now s0 = (Inr level, s1) \<and> level \<noteq> JNull"
  then obtain name' L' U' where a: "user_name s1 = Some name'" "licenses s1 = JObj L'"
      "map_of L' ''users'' = Some (JObj U')" "scan_users (hwid s0) U' = Some name'"
    using check_license_returns [of net now s0 level s1] by blast
  then obtain info' where "map_of U' name' = Some info'"
    using scan_users_key [of "hwid s0" U' name'] by auto
  then show "\<exists>name' L' U' info'. user_name s1 = Some name' \<and> licenses s1 = JObj L'
           \<and> map_of L' ''users'' = Some (JObj U') \<and> map_of U' name' = Some info'"
    using a by blast
qed

theorem get_server_after_identification_witness:
  "get_server (init ''joystick'' ''5'' ''H2'') =
     (Inr JNull, say CheckLicenseFirst (init ''joystick'' ''5'' ''H2''))
   \<and> get_server evgen_session = (Inr (JStr ''alure''), evgen_session)
   \<and> get_server pavel_session = (Inr (JStr ''global''), pavel_session)
   \<and> (\<exists>name L U info. user_name pavel_session = Some name \<and> licenses pavel_session = JObj L
           \<and> map_of L ''users'' = Some (JObj U) \<and> map_of U name = Some info)"
proof -
  let ?U = "[(''Pavel'', JStr ''H1''),
             (''Evgen'', JObj [(''hwid'', JStr ''H2''), (''server'', JStr ''alure'')])]"
  let ?A = "JObj
         [(''joystick'', JObj
             [(''Pavel'', JObj [(''level'', JStr ''PRO''), (''expires'', JStr ''2020-01-01''),
                                (''active'', JBool True)]),
              (''Evgen'', JObj [(''expires'', JStr ''2025-06-15''), (''a'', JInt 1)])])]"
  let ?L = "[(''users'', JObj ?U), (''apps'', ?A), (''min_version'', JStr ''5'')]"
  have fresh: "user_name (init ''joystick'' ''5'' ''H2'') = None" by (simp add: init_def)
  have one: "get_server (init ''joystick'' ''5'' ''H2'') =
     (Inr JNull, say CheckLicenseFirst (init ''joystick'' ''5'' ''H2''))"
    using get_server_after_identification [of "init ''joystick'' ''5'' ''H2''"] fresh by blast
  have evgen: "user_name evgen_session = Some ''Evgen'' \<and> licenses evgen_session = JObj ?L
        \<and> map_of ?L ''users'' = Some (JObj ?U)
        \<and> map_of ?U ''Evgen'' = Some (JObj [(''hwid'', JStr ''H2''), (''server'', JStr ''alure'')])"
    by (simp add: evgen_session_eq init_def example_licenses_def)
  have two: "get_server evgen_session = (Inr (JStr ''alure''), evgen_session)"
    using get_server_after_identification [of evgen_session "''Evgen''" ?L ?U
        "JObj [(''hwid'', JStr ''H2''), (''server'', JStr ''alure'')]"] evgen
    by simp
  have pavel: "user_name pavel_session = Some ''Pavel'' \<and> licenses pavel_session = JObj ?L
        \<and> map_of ?L ''users'' = Some (JObj ?U) \<and> map_of ?U ''Pavel'' = Some (JStr ''H1'')"
    by (simp add: pavel_session_eq init_def example_licenses_def)
  have three: "get_server pavel_session = (Inr (JStr ''global''), pavel_session)"
    using get_server_after_identification [of pavel_session "''Pavel''" ?L ?U "JStr ''H1''"] pavel
    by simp
  have granted: "check_license example_net ((2025, 6, 1), 0) (init ''joystick'' ''5'' ''H1'') =
       (Inr (JStr ''PRO''), pavel_session) \<and> JStr ''PRO'' \<noteq> JNull"
    using pavel_session_eq by simp
  have four: "\<exists>name L U info. user_name pavel_session = Some name \<and> licenses pavel_session = JObj L
           \<and> map_of L ''users'' = Some (JObj U) \<and> map_of U name = Some info"
    using get_server_after_identification [of _ _ _ _ _ example_net "((2025, 6, 1), 0)"
        "init ''joystick'' ''5'' ''H1''" "JStr ''PRO''" pavel_session] granted
    by blast
  show ?thesis using one two three four by blast
qed

text \<open>
  C9 as stated fails after a denial: the identity is found, the application is unknown,
  the check returns \<^verbatim>\<open>None\<close>, and \<^verbatim>\<open>get_server\<close> answers \<^verbatim>\<open>"global"\<close>, not the
  error signal.
\<close>

theorem get_server_after_denied_check:
  "fst (check_license example_net ((2025, 6, 1), 0) (init ''editor'' ''5'' ''H1'')) = Inr JNull
   \<and> printed (snd (check_license example_net ((2025, 6, 1), 0) (init ''editor'' ''5'' ''H1'')))
       = [ApplicationUnknown ''editor'']
   \<and> fst (get_server (snd (check_license example_net ((2025, 6, 1), 0)
                             (init ''editor'' ''5'' ''H1''))))
       = Inr (JStr ''global'')"
  by (simp add: run_defs example_defs parse_defs)


section \<open>The parameter cascade\<close>

lemmas evgen_state = evgen_session_eq [THEN conjunct2]

lemmas pavel_state = pavel_session_eq [THEN conjunct2]

lemma get_server_named:
  "fst (get_server s) = Inr (JStr name) \<Longrightarrow> get_server s = (Inr (JStr name), s)"
  by (auto simp: get_server_def say_def split: option.splits sum.splits json.splits if_splits)

lemma get_server_cong:
  "user_name s' = user_name s \<Longrightarrow> licenses s' = licenses s \<Longrightarrow>
   fst (get_server s') = fst (get_server s)"
  by (auto simp: get_server_def say_def split: option.splits sum.splits json.splits if_splits)

lemma search_config_dict:
  "search_config p (JObj d) =
     Inr (case map_of d p of Some v \<Rightarrow> Some v | None \<Rightarrow> search_sections p (map snd d))"
  by (auto simp: search_config_def split: option.splits)

lemma server_tier_loaded:
  assumes "fst (get_server s) = Inr (JStr name)"
    and "load_server_config net name s = (True, s1)"
  shows "server_tier net p s = (search_config p (server_config s1), s1)"
proof -
  have "name \<noteq> []"
    using assms(1)
    by (auto simp: get_server_def say_def split: option.splits sum.splits json.splits if_splits)
  then show ?thesis
    using get_server_named [OF assms(1)] assms(2) by (simp add: server_tier_def)
qed

lemma get_server_frame:
  "global_config (snd (get_server s)) = global_config s
   \<and> server_config (snd (get_server s)) = server_config s
   \<and> server_name (snd (get_server s)) = server_name s
   \<and> licenses (snd (get_server s)) = licenses s
   \<and> user_name (snd (get_server s)) = user_name s
   \<and> user_data (snd (get_server s)) = user_data s
   \<and> fetches (snd (get_server s)) = fetches s"
  by (auto simp: get_server_def say_def Let_def split: option.splits sum.splits json.splits)

lemma load_server_config_frame:
  "global_config (snd (load_server_config net name s)) = global_config s
   \<and> licenses (snd (load_server_config net name s)) = licenses s
   \<and> user_name (snd (load_server_config net name s)) = user_name s
   \<and> user_data (snd (load_server_config net name s)) = user_data s
   \<and> fetched_by GlobalSlot (snd (load_server_config net name s)) = fetched_by GlobalSlot s
   \<and> fetched_by LicensesSlot (snd (load_server_config net name s)) = fetched_by LicensesSlot s"
  by (auto simp: load_server_config_def fetch_json_def say_def Let_def fetched_by_def
           split: option.splits)

lemma server_tier_state:
  "snd (server_tier net p s) = snd (get_server s)
   \<or> (\<exists>name. snd (server_tier net p s) = snd (load_server_config net name (snd (get_server s))))"
proof (cases "get_server s")
  case (Pair r sa)
  show ?thesis
  proof (cases r)
    case (Inl e)
    then show ?thesis using Pair by (simp add: server_tier_def)
  next
    case (Inr server)
    show ?thesis
    proof (cases server)
      case (JStr name)
      show ?thesis
      proof (cases "load_server_config net name sa")
        case (Pair ok sb)
        then have "snd (server_tier net p s) = sa
            \<or> snd (server_tier net p s) = snd (load_server_config net name sa)"
          using \<open>get_server s = (r, sa)\<close> Inr JStr
          by (cases ok) (simp_all add: server_tier_def)
        then show ?thesis
          using \<open>get_server s = (r, sa)\<close> by auto
      qed
    qed (use Pair Inr in \<open>simp_all add: server_tier_def\<close>)
  qed
qed

lemma server_tier_frame:
  "global_config (snd (server_tier net p s)) = global_config s
   \<and> licenses (snd (server_tier net p s)) = licenses s
   \<and> user_name (snd (server_tier net p s)) = user_name s
   \<and> user_data (snd (server_tier net p s)) = user_data s
   \<and> fetched_by GlobalSlot (snd (server_tier net p s)) = fetched_by GlobalSlot s
   \<and> fetched_by LicensesSlot (snd (server_tier net p s)) = fetched_by LicensesSlot s"
proof -
  have fb: "fetched_by sl (snd (get_server s)) = fetched_by sl s" for sl
    using get_server_frame [of s] by (simp add: fetched_by_def)
  from server_tier_state [of net p s] show ?thesis
  proof
    assume "snd (server_tier net p s) = snd (get_server s)"
    then show ?thesis using get_server_frame [of s] fb by simp
  next
    assume "\<exists>name. snd (server_tier net p s) = snd (load_server_config net name (snd (get_server s)))"
    then obtain name where
      "snd (server_tier net p s) = snd (load_server_config net name (snd (get_server s)))" ..
    then show ?thesis
      using load_server_config_frame [of net name "snd (get_server s)"] get_server_frame [of s] fb
      by simp
  qed
qed

lemma get_without_fallback_frame:
  "global_config (snd (get net p False s)) = global_config s
   \<and> fetched_by GlobalSlot (snd (get net p False s)) = fetched_by GlobalSlot s"
  using server_tier_frame [of net p s]
  by (auto simp: get_def global_tier_def say_def fetched_by_def
           split: sum.splits option.splits prod.splits)

lemma load_server_config_two_nets:
  assumes "\<forall>n f. f \<noteq> ''global.json'' \<longrightarrow> net1 n f = net2 n f" and "name \<noteq> ''global''"
  shows "load_server_config net1 name s = load_server_config net2 name s"
proof -
  have "name @ ''.json'' \<noteq> ''global.json''" using assms(2) by auto
  then show ?thesis using assms(1) by (simp add: load_server_config_def fetch_json_def)
qed

lemma server_tier_two_nets:
  assumes "\<forall>n f. f \<noteq> ''global.json'' \<longrightarrow> net1 n f = net2 n f"
    and "fst (get_server s) \<noteq> Inr (JStr ''global'')"
  shows "server_tier net1 p s = server_tier net2 p s"
proof -
  obtain r sa where g: "get_server s = (r, sa)" by fastforce
  show ?thesis
  proof (cases r)
    case (Inl e)
    then show ?thesis using g by (simp add: server_tier_def)
  next
    case (Inr server)
    show ?thesis
    proof (cases server)
      case (JStr name)
      then have "name \<noteq> ''global''" using assms(2) g Inr by auto
      then show ?thesis
        using g Inr JStr load_server_config_two_nets [OF assms(1), of name sa]
        by (simp add: server_tier_def)
    qed (use g Inr in \<open>simp_all add: server_tier_def\<close>)
  qed
qed

lemma global_tier_frame:
  "server_config (snd (global_tier net p fb s)) = server_config s
   \<and> server_name (snd (global_tier net p fb s)) = server_name s
   \<and> licenses (snd (global_tier net p fb s)) = licenses s
   \<and> user_name (snd (global_tier net p fb s)) = user_name s
   \<and> user_data (snd (global_tier net p fb s)) = user_data s
   \<and> fetched_by ServerSlot (snd (global_tier net p fb s)) = fetched_by ServerSlot s
   \<and> fetched_by LicensesSlot (snd (global_tier net p fb s)) = fetched_by LicensesSlot s"
  by (auto simp: global_tier_def load_global_config_def fetch_json_def say_def fetched_by_def
           Let_def split: option.splits bool.splits)

lemma global_tier_cached:
  "global_config s \<noteq> JNull \<Longrightarrow> snd (global_tier net p fb s) = s"
  by (simp add: global_tier_def load_global_config_def)

lemma get_state:
  "snd (get net p fb s) = s
   \<or> snd (get net p fb s) = snd (server_tier net p s)
   \<or> snd (get net p fb s) = snd (global_tier net p fb (snd (server_tier net p s)))
   \<or> snd (get net p fb s) =
        say (ParameterNotFound p) (snd (global_tier net p fb (snd (server_tier net p s))))"
  by (auto simp: get_def split: sum.splits option.splits prod.splits)

lemma get_state_miss:
  assumes "user_tier p s = Inr None"
  shows "snd (get net p fb s) = snd (server_tier net p s)
   \<or> snd (get net p fb s) = snd (global_tier net p fb (snd (server_tier net p s)))
   \<or> snd (get net p fb s) =
        say (ParameterNotFound p) (snd (global_tier net p fb (snd (server_tier net p s))))"
  using assms by (auto simp: get_def split: sum.splits option.splits prod.splits)

lemma say_frame:
  "server_config (say m s) = server_config s \<and> server_name (say m s) = server_name s
   \<and> licenses (say m s) = licenses s \<and> user_name (say m s) = user_name s
   \<and> global_config (say m s) = global_config s \<and> fetches (say m s) = fetches s
   \<and> fetched_by sl (say m s) = fetched_by sl s"
  by (simp add: say_def fetched_by_def)

lemma server_tier_fetch:
  assumes "fst (get_server s) = Inr (JStr name)" and "server_config s = JNull"
    and "net (length (fetches s)) (name @ ''.json'') = Some d" and "d \<noteq> JNull"
  shows "snd (server_tier net p s) =
     s\<lparr>fetches := fetches s @ [(ServerSlot, name @ ''.json'')],
       server_config := d, server_name := Some name\<rparr>"
proof -
  have "load_server_config net name s =
     (True, s\<lparr>fetches := fetches s @ [(ServerSlot, name @ ''.json'')],
              server_config := d, server_name := Some name\<rparr>)"
    using assms by (simp add: load_server_config_def fetch_json_def)
  then show ?thesis using server_tier_loaded [OF assms(1), of net _ p] by simp
qed

lemma server_tier_cached:
  assumes "fst (get_server s) = Inr (JStr name)" and "server_config s \<noteq> JNull"
    and "server_name s = Some name"
  shows "snd (server_tier net p s) = s"
proof -
  have "load_server_config net name s = (True, s)"
    using assms by (simp add: load_server_config_def)
  then show ?thesis using server_tier_loaded [OF assms(1), of net s p] by simp
qed

lemma two_gets_one_server_fetch:
  assumes "user_tier p1 s = Inr None" and "fst (get_server s) = Inr (JStr name)"
    and "server_config s = JNull"
    and "net (length (fetches s)) (name @ ''.json'') = Some d" and "d \<noteq> JNull"
  shows "fetched_by ServerSlot (snd (get net p2 fb2 (snd (get net p1 fb1 s)))) =
         fetched_by ServerSlot s @ [name @ ''.json'']"
proof -
  let ?sa = "snd (server_tier net p1 s)"
  let ?s1 = "snd (get net p1 fb1 s)"
  have sa: "?sa = s\<lparr>fetches := fetches s @ [(ServerSlot, name @ ''.json'')],
                     server_config := d, server_name := Some name\<rparr>"
    using server_tier_fetch [of s name net d p1] assms by simp
  have sa_props: "server_config ?sa = d \<and> server_name ?sa = Some name
      \<and> licenses ?sa = licenses s \<and> user_name ?sa = user_name s
      \<and> fetched_by ServerSlot ?sa = fetched_by ServerSlot s @ [name @ ''.json'']"
    by (simp add: sa fetched_by_def)
  have s1: "server_config ?s1 = d \<and> server_name ?s1 = Some name
      \<and> licenses ?s1 = licenses s \<and> user_name ?s1 = user_name s
      \<and> fetched_by ServerSlot ?s1 = fetched_by ServerSlot s @ [name @ ''.json'']"
    using get_state_miss [OF assms(1), of net fb1] sa_props
      global_tier_frame [of net p1 fb1 ?sa] say_frame
    by (elim disjE) simp_all
  have gs: "fst (get_server ?s1) = Inr (JStr name)"
    using get_server_cong [of ?s1 s] s1 assms(2) by simp
  have cached: "snd (server_tier net p2 ?s1) = ?s1"
    using server_tier_cached [OF gs, of net p2] s1 assms(5) by simp
  have "fetched_by ServerSlot (snd (get net p2 fb2 ?s1)) = fetched_by ServerSlot ?s1"
    using get_state [of net p2 fb2 ?s1] cached global_tier_frame [of net p2 fb2 ?s1] say_frame
    by (elim disjE) simp_all
  then show ?thesis using s1 by simp
qed

lemma check_license_no_refetch:
  assumes "licenses s \<noteq> JNull"
  shows "fetches (snd (check_license net now s)) = fetches s"
proof -
  have vg: "fetches (snd (version_gate s)) = fetches s" "licenses (snd (version_gate s)) = licenses s"
    by (auto simp: version_gate_def say_def split: sum.splits option.splits)
  have fu: "snd (find_user net s') = s'" if "licenses s' \<noteq> JNull" for s'
    using that
    by (auto simp: find_user_def load_licenses_cached split: sum.splits json.splits)
  obtain r2 sb where g: "version_gate s = (r2, sb)" by fastforce
  have sb: "fetches sb = fetches s" "licenses sb \<noteq> JNull" using vg g assms by auto
  obtain r3 sc where f: "find_user net sb = (r3, sc)" by fastforce
  have sc: "sc = sb" using fu [of sb] sb f by simp
  show ?thesis
    using load_licenses_cached [OF assms, of net] g f sc sb
      check_app_frame [of now _ "sb\<lparr>user_name := Some _\<rparr>"]
    by (auto simp: check_license_def say_def split: sum.splits bool.splits option.splits)
qed

lemma get_never_fetches_licenses:
  "fetched_by LicensesSlot (snd (get net p fb s)) = fetched_by LicensesSlot s"
  using get_state [of net p fb s] server_tier_frame [of net p s]
    global_tier_frame [of net p fb "snd (server_tier net p s)"] say_frame
  by (elim disjE) simp_all

lemma get_global_cached:
  assumes "global_config s \<noteq> JNull"
  shows "fetched_by GlobalSlot (snd (get net p fb s)) = fetched_by GlobalSlot s"
proof -
  have "global_config (snd (server_tier net p s)) \<noteq> JNull"
    using server_tier_frame [of net p s] assms by simp
  then have "snd (global_tier net p fb (snd (server_tier net p s))) = snd (server_tier net p s)"
    by (rule global_tier_cached)
  then show ?thesis
    using get_state [of net p fb s] server_tier_frame [of net p s] say_frame
    by (elim disjE) simp_all
qed



text \<open>
  C6, as amended. \<^verbatim>\<open>get\<close> without fallback never loads the global cache slot: it
  leaves \<^verbatim>\<open>_global_config\<close> as it was and issues no request from
  \<^verbatim>\<open>_load_global_config\<close>. When the user tier and the server tier miss it returns
  \<^verbatim>\<open>None\<close> with the not-found line. When the user's server name is not
  \<^verbatim>\<open>"global"\<close>, two stores that differ in the file global.json only give the same
  result and the same session.
\<close>

theorem get_without_fallback:
  "global_config (snd (get net p False s)) = global_config s
   \<and> fetched_by GlobalSlot (snd (get net p False s)) = fetched_by GlobalSlot s
   \<and> (user_tier p s = Inr None \<and> fst (server_tier net p s) = Inr None \<longrightarrow>
        get net p False s = (Inr JNull, say (ParameterNotFound p) (snd (server_tier net p s))))
   \<and> ((\<forall>n f. f \<noteq> ''global.json'' \<longrightarrow> net1 n f = net2 n f)
        \<and> fst (get_server s) \<noteq> Inr (JStr ''global'') \<longrightarrow>
        get net1 p False s = get net2 p False s)"
proof (intro conjI impI)
  show "global_config (snd (get net p False s)) = global_config s"
    using get_without_fallback_frame by blast
  show "fetched_by GlobalSlot (snd (get net p False s)) = fetched_by GlobalSlot s"
    using get_without_fallback_frame by blast
next
  assume "user_tier p s = Inr None \<and> fst (server_tier net p s) = Inr None"
  then show "get net p False s = (Inr JNull, say (ParameterNotFound p) (snd (server_tier net p s)))"
    by (cases "server_tier net p s") (simp add: get_def global_tier_def)
next
  assume "(\<forall>n f. f \<noteq> ''global.json'' \<longrightarrow> net1 n f = net2 n f)
        \<and> fst (get_server s) \<noteq> Inr (JStr ''global'')"
  then have "server_tier net1 p s = server_tier net2 p s"
    using server_tier_two_nets [of net1 net2 s p] by blast
  then show "get net1 p False s = get net2 p False s"
    by (simp add: get_def global_tier_def split: sum.splits option.splits prod.splits)
qed

theorem get_without_fallback_witness:
  "get example_net ''timeout'' False evgen_session =
     (Inr JNull, say (ParameterNotFound ''timeout'')
        (evgen_session\<lparr>fetches := [(LicensesSlot, ''licenses.json''), (ServerSlot, ''alure.json'')],
                       server_config := example_alure, server_name := Some ''alure''\<rparr>))
   \<and> get example_net_other_global ''timeout'' False evgen_session =
       get example_net ''timeout'' False evgen_session"
proof -
  let ?s1 = "evgen_session\<lparr>fetches := [(LicensesSlot, ''licenses.json''), (ServerSlot, ''alure.json'')],
                server_config := example_alure, server_name := Some ''alure''\<rparr>"
  have miss: "user_tier ''timeout'' evgen_session = Inr None
      \<and> fst (server_tier example_net ''timeout'' evgen_session) = Inr None"
    by (simp add: evgen_state run_defs example_defs Let_def)
  have st: "snd (server_tier example_net ''timeout'' evgen_session) = ?s1"
    by (simp add: evgen_state run_defs example_defs Let_def)
  have one: "get example_net ''timeout'' False evgen_session =
     (Inr JNull, say (ParameterNotFound ''timeout'') ?s1)"
    using get_without_fallback [of example_net "''timeout''" evgen_session] miss st by simp
  have same: "(\<forall>n f. f \<noteq> ''global.json'' \<longrightarrow> example_net_other_global n f = example_net n f)
      \<and> fst (get_server evgen_session) \<noteq> Inr (JStr ''global'')"
    by (simp add: example_net_other_global_def evgen_state run_defs example_defs Let_def)
  have two: "get example_net_other_global ''timeout'' False evgen_session =
       get example_net ''timeout'' False evgen_session"
    using get_without_fallback [of _ "''timeout''" evgen_session example_net_other_global example_net]
      same
    by blast
  show ?thesis using one two by simp
qed

text \<open>
  C6 as stated fails for a user without a server of their own: the server tier then
  reads global.json, and with fallback off the value returned is the one that file holds.
\<close>

theorem global_file_read_without_fallback:
  "fst (get example_net ''timeout'' False pavel_session) = Inr (JInt 10)
   \<and> fst (get example_net_other_global ''timeout'' False pavel_session) = Inr (JInt 99)"
  by (simp add: pavel_state run_defs example_defs example_net_other_global_def Let_def)

text \<open>
  C7, as amended. Each cache slot requests its document at most once while the entry
  stays in the slot. Two calls of \<^verbatim>\<open>get\<close> in a row that reach the server tier request the server
  file once, when that request succeeds. Asking \<^verbatim>\<open>_load_server_config\<close> for a name
  other than the cached one requests the new file and replaces the cached name and
  document. A failed request leaves the slot empty, and the next load of that slot requests
  the file again, for each of the three slots. A load of a slot that holds its document
  requests nothing. Once the licenses document is loaded no
  check requests anything, \<^verbatim>\<open>get\<close> never requests the licenses file, and once the
  global document is loaded \<^verbatim>\<open>get\<close> does not request it again.
\<close>

theorem documents_cached_per_slot:
  "(user_tier p1 s = Inr None \<and> fst (get_server s) = Inr (JStr name) \<and> server_config s = JNull
      \<and> net (length (fetches s)) (name @ ''.json'') = Some d \<and> d \<noteq> JNull \<longrightarrow>
      fetched_by ServerSlot (snd (get net p2 fb2 (snd (get net p1 fb1 s)))) =
        fetched_by ServerSlot s @ [name @ ''.json''])
   \<and> (server_name s \<noteq> Some name \<longrightarrow>
        fetches (snd (load_server_config net name s)) = fetches s @ [(ServerSlot, name @ ''.json'')]
      \<and> server_name (snd (load_server_config net name s)) = Some name
      \<and> server_config (snd (load_server_config net name s)) =
          (case net (length (fetches s)) (name @ ''.json'') of None \<Rightarrow> JNull | Some doc \<Rightarrow> doc))
   \<and> (licenses s = JNull \<and> net (length (fetches s)) ''licenses.json'' = None \<longrightarrow>
        licenses (snd (load_licenses net s)) = JNull
      \<and> fetches (snd (load_licenses net' (snd (load_licenses net s)))) =
          fetches (snd (load_licenses net s)) @ [(LicensesSlot, ''licenses.json'')])
   \<and> (global_config s = JNull \<and> net (length (fetches s)) ''global.json'' = None \<longrightarrow>
        global_config (snd (load_global_config net s)) = JNull
      \<and> fetches (snd (load_global_config net' (snd (load_global_config net s)))) =
          fetches (snd (load_global_config net s)) @ [(GlobalSlot, ''global.json'')])
   \<and> (server_config s = JNull \<and> net (length (fetches s)) (name @ ''.json'') = None \<longrightarrow>
        server_config (snd (load_server_config net name s)) = JNull
      \<and> fetches (snd (load_server_config net' name (snd (load_server_config net name s)))) =
          fetches (snd (load_server_config net name s)) @ [(ServerSlot, name @ ''.json'')])
   \<and> (licenses s \<noteq> JNull \<longrightarrow> fetches (snd (check_license net now s)) = fetches s)
   \<and> fetched_by LicensesSlot (snd (get net p fb s)) = fetched_by LicensesSlot s
   \<and> (global_config s \<noteq> JNull \<longrightarrow>
        fetched_by GlobalSlot (snd (get net p fb s)) = fetched_by GlobalSlot s)
   \<and> (licenses s \<noteq> JNull \<longrightarrow> load_licenses net s = (Inr True, s))
   \<and> (global_config s \<noteq> JNull \<longrightarrow> load_global_config net s = (True, s))
   \<and> (server_config s \<noteq> JNull \<and> server_name s = Some name \<longrightarrow>
        load_server_config net name s = (True, s))"
proof (intro conjI impI)
  assume "user_tier p1 s = Inr None \<and> fst (get_server s) = Inr (JStr name) \<and> server_config s = JNull
      \<and> net (length (fetches s)) (name @ ''.json'') = Some d \<and> d \<noteq> JNull"
  then show "fetched_by ServerSlot (snd (get net p2 fb2 (snd (get net p1 fb1 s)))) =
        fetched_by ServerSlot s @ [name @ ''.json'']"
    using two_gets_one_server_fetch [of p1 s name net d p2 fb2 fb1] by simp
next
  assume a: "server_name s \<noteq> Some name"
  then show "fetches (snd (load_server_config net name s)) = fetches s @ [(ServerSlot, name @ ''.json'')]"
    by (simp add: load_server_config_def fetch_json_def say_def Let_def split: option.splits)
  from a show "server_name (snd (load_server_config net name s)) = Some name"
    by (simp add: load_server_config_def fetch_json_def say_def Let_def split: option.splits)
  from a show "server_config (snd (load_server_config net name s)) =
          (case net (length (fetches s)) (name @ ''.json'') of None \<Rightarrow> JNull | Some doc \<Rightarrow> doc)"
    by (simp add: load_server_config_def fetch_json_def say_def Let_def split: option.splits)
next
  assume a: "licenses s = JNull \<and> net (length (fetches s)) ''licenses.json'' = None"
  then show "licenses (snd (load_licenses net s)) = JNull"
    by (simp add: load_licenses_def fetch_json_def say_def Let_def)
  from a show "fetches (snd (load_licenses net' (snd (load_licenses net s)))) =
          fetches (snd (load_licenses net s)) @ [(LicensesSlot, ''licenses.json'')]"
    by (auto simp: load_licenses_def fetch_json_def say_def Let_def split: option.splits sum.splits)
next
  assume a: "global_config s = JNull \<and> net (length (fetches s)) ''global.json'' = None"
  then show "global_config (snd (load_global_config net s)) = JNull"
    by (simp add: load_global_config_def fetch_json_def say_def Let_def)
  from a show "fetches (snd (load_global_config net' (snd (load_global_config net s)))) =
          fetches (snd (load_global_config net s)) @ [(GlobalSlot, ''global.json'')]"
    by (simp add: load_global_config_def fetch_json_def say_def Let_def split: option.splits)
next
  assume a: "server_config s = JNull \<and> net (length (fetches s)) (name @ ''.json'') = None"
  then show "server_config (snd (load_server_config net name s)) = JNull"
    by (simp add: load_server_config_def fetch_json_def say_def Let_def)
  from a show "fetches (snd (load_server_config net' name (snd (load_server_config net name s)))) =
          fetches (snd (load_server_config net name s)) @ [(ServerSlot, name @ ''.json'')]"
    by (simp add: load_server_config_def fetch_json_def say_def Let_def split: option.splits)
next
  assume "licenses s \<noteq> JNull"
  then show "fetches (snd (check_license net now s)) = fetches s"
    by (rule check_license_no_refetch)
next
  show "fetched_by LicensesSlot (snd (get net p fb s)) = fetched_by LicensesSlot s"
    by (rule get_never_fetches_licenses)
next
  assume "global_config s \<noteq> JNull"
  then show "fetched_by GlobalSlot (snd (get net p fb s)) = fetched_by GlobalSlot s"
    by (rule get_global_cached)
next
  assume "licenses s \<noteq> JNull"
  then show "load_licenses net s = (Inr True, s)"
    by (rule load_licenses_cached)
next
  assume "global_config s \<noteq> JNull"
  then show "load_global_config net s = (True, s)"
    by (simp add: load_global_config_def)
next
  assume "server_config s \<noteq> JNull \<and> server_name s = Some name"
  then show "load_server_config net name s = (True, s)"
    by (simp add: load_server_config_def)
qed

theorem documents_cached_per_slot_witness:
  "fetched_by ServerSlot
     (snd (get example_net ''CHAT'' True (snd (get example_net ''delay'' True evgen_session))))
     = [''alure.json'']
   \<and> fetches (snd (load_server_config example_net ''dekan''
                     (snd (get example_net ''delay'' True evgen_session))))
     = [(LicensesSlot, ''licenses.json''), (ServerSlot, ''alure.json''), (ServerSlot, ''dekan.json'')]
   \<and> fetches (snd (load_licenses example_net
                     (snd (load_licenses example_net_down (init ''joystick'' ''5'' ''H2'')))))
     = [(LicensesSlot, ''licenses.json''), (LicensesSlot, ''licenses.json'')]
   \<and> fetches (snd (load_global_config example_net
                     (snd (load_global_config example_net_down (init ''joystick'' ''5'' ''H2'')))))
     = [(GlobalSlot, ''global.json''), (GlobalSlot, ''global.json'')]
   \<and> fetches (snd (load_server_config example_net ''alure''
                     (snd (load_server_config example_net_down ''alure''
                             (init ''joystick'' ''5'' ''H2'')))))
     = [(ServerSlot, ''alure.json''), (ServerSlot, ''alure.json'')]
   \<and> fetches (snd (check_license example_net ((2025, 6, 20), 0) evgen_session))
     = [(LicensesSlot, ''licenses.json'')]
   \<and> fetched_by GlobalSlot
       (snd (get example_net ''mask'' True (snd (get example_net ''timeout'' True evgen_session))))
     = [''global.json'']"
proof -
  let ?s0 = "init ''joystick'' ''5'' ''H2''"
  let ?s1 = "snd (get example_net ''delay'' True evgen_session)"
  have first: "user_tier ''delay'' evgen_session = Inr None
      \<and> fst (get_server evgen_session) = Inr (JStr ''alure'') \<and> server_config evgen_session = JNull
      \<and> example_net (length (fetches evgen_session)) (''alure'' @ ''.json'') = Some example_alure
      \<and> example_alure \<noteq> JNull"
    by (simp add: evgen_state run_defs example_defs Let_def)
  have log0: "fetched_by ServerSlot evgen_session = []"
    by (simp add: evgen_state init_def fetched_by_def)
  have one: "fetched_by ServerSlot (snd (get example_net ''CHAT'' True ?s1)) = [''alure.json'']"
    using documents_cached_per_slot [of "''delay''" evgen_session "''alure''" example_net
        example_alure "''CHAT''" True True] first log0
    by simp
  have s1: "server_name ?s1 \<noteq> Some ''dekan''
      \<and> fetches ?s1 = [(LicensesSlot, ''licenses.json''), (ServerSlot, ''alure.json'')]"
    by (simp add: evgen_state run_defs example_defs Let_def)
  have two: "fetches (snd (load_server_config example_net ''dekan'' ?s1))
     = [(LicensesSlot, ''licenses.json''), (ServerSlot, ''alure.json''), (ServerSlot, ''dekan.json'')]"
    using documents_cached_per_slot [of _ ?s1 "''dekan''" example_net] s1 by simp
  have down: "licenses ?s0 = JNull
      \<and> example_net_down (length (fetches ?s0)) ''licenses.json'' = None"
    by (simp add: init_def example_net_down_def)
  have failed: "fetches (snd (load_licenses example_net_down ?s0)) = [(LicensesSlot, ''licenses.json'')]"
    by (simp add: run_defs example_net_down_def Let_def)
  have three: "fetches (snd (load_licenses example_net (snd (load_licenses example_net_down ?s0))))
     = [(LicensesSlot, ''licenses.json''), (LicensesSlot, ''licenses.json'')]"
    using documents_cached_per_slot [of _ ?s0 _ example_net_down _ _ _ _ example_net] down failed
    by simp
  have gdown: "global_config ?s0 = JNull
      \<and> example_net_down (length (fetches ?s0)) ''global.json'' = None"
    by (simp add: init_def example_net_down_def)
  have gfailed: "fetches (snd (load_global_config example_net_down ?s0)) = [(GlobalSlot, ''global.json'')]"
    by (simp add: run_defs example_net_down_def Let_def)
  have four: "fetches (snd (load_global_config example_net (snd (load_global_config example_net_down ?s0))))
     = [(GlobalSlot, ''global.json''), (GlobalSlot, ''global.json'')]"
    using documents_cached_per_slot [of _ ?s0 _ example_net_down _ _ _ _ example_net] gdown gfailed
    by simp
  have sdown: "server_config ?s0 = JNull
      \<and> example_net_down (length (fetches ?s0)) (''alure'' @ ''.json'') = None"
    by (simp add: init_def example_net_down_def)
  have sfailed: "fetches (snd (load_server_config example_net_down ''alure'' ?s0))
     = [(ServerSlot, ''alure.json'')]"
    by (simp add: run_defs example_net_down_def Let_def)
  have five: "fetches (snd (load_server_config example_net ''alure''
                     (snd (load_server_config example_net_down ''alure'' ?s0))))
     = [(ServerSlot, ''alure.json''), (ServerSlot, ''alure.json'')]"
    using documents_cached_per_slot [of _ ?s0 "''alure''" example_net_down _ _ _ _ example_net]
      sdown sfailed
    by simp
  have loaded: "licenses evgen_session \<noteq> JNull
      \<and> fetches evgen_session = [(LicensesSlot, ''licenses.json'')]"
    by (simp add: evgen_state init_def example_licenses_def)
  have six: "fetches (snd (check_license example_net ((2025, 6, 20), 0) evgen_session))
     = [(LicensesSlot, ''licenses.json'')]"
    using documents_cached_per_slot [of _ evgen_session _ example_net _ _ _ _ _ "((2025, 6, 20), 0)"]
      loaded
    by simp
  let ?s2 = "snd (get example_net ''timeout'' True evgen_session)"
  have s2: "global_config ?s2 \<noteq> JNull \<and> fetched_by GlobalSlot ?s2 = [''global.json'']"
    by (simp add: evgen_state run_defs example_defs Let_def fetched_by_def)
  have seven: "fetched_by GlobalSlot (snd (get example_net ''mask'' True ?s2)) = [''global.json'']"
    using documents_cached_per_slot [of _ ?s2 _ example_net _ _ _ _ _ _ "''mask''" True] s2
    by simp
  show ?thesis using one two three four five six seven by simp
qed

text \<open>
  C7 as stated fails: one file name is requested more than once in a session, every
  request answered. For a user without a server of their own a single \<^verbatim>\<open>get\<close> that
  finds nothing requests global.json twice, once for each slot; and a server name that
  was replaced in the slot is requested again when it comes back.
\<close>

theorem same_file_fetched_twice:
  "map snd (fetches (snd (get example_net ''volume'' True pavel_session))) =
     [''licenses.json'', ''global.json'', ''global.json'']
   \<and> example_net 1 ''global.json'' = Some example_global
   \<and> example_net 2 ''global.json'' = Some example_global
   \<and> fetched_by ServerSlot
       (snd (load_server_config example_net ''alure''
          (snd (load_server_config example_net ''global''
             (snd (load_server_config example_net ''alure'' (init ''joystick'' ''5'' ''H2'')))))))
     = [''alure.json'', ''global.json'', ''alure.json'']"
  by (simp add: pavel_state run_defs example_defs fetched_by_def Let_def)

text \<open>
  C10. A user whose entry is a string, or a record without \<^verbatim>\<open>server\<close>, has the server
  name \<^verbatim>\<open>"global"\<close>. For such a user \<^verbatim>\<open>get\<close> requests global.json from
  \<^verbatim>\<open>_load_server_config\<close> and searches it as the server tier, so a key of that file is
  returned with fallback off; with fallback on and the key in neither answer, the same
  file is requested a second time from \<^verbatim>\<open>_load_global_config\<close>.
\<close>

theorem default_server_reads_global_file:
  "(user_name s = Some name \<and> licenses s = JObj L \<and> map_of L ''users'' = Some (JObj U)
      \<and> (map_of U name = Some (JStr h)
          \<or> map_of U name = Some (JObj d) \<and> map_of d ''server'' = None) \<longrightarrow>
      fst (get_server s) = Inr (JStr ''global''))
   \<and> (fst (get_server s) = Inr (JStr ''global'') \<and> user_tier p s = Inr None
        \<and> server_config s = JNull
        \<and> net (length (fetches s)) ''global.json'' = Some (JObj gd) \<longrightarrow>
        (map_of gd p = Some v \<longrightarrow>
           get net p False s =
             (Inr v, s\<lparr>fetches := fetches s @ [(ServerSlot, ''global.json'')],
                       server_config := JObj gd, server_name := Some ''global''\<rparr>))
      \<and> (global_config s = JNull \<and> search_config p (JObj gd) = Inr None
           \<and> net (Suc (length (fetches s))) ''global.json'' = Some (JObj gd')
           \<and> search_config p (JObj gd') = Inr None \<longrightarrow>
           fetches (snd (get net p True s)) =
             fetches s @ [(ServerSlot, ''global.json''), (GlobalSlot, ''global.json'')]))"
proof (intro conjI impI)
  assume "user_name s = Some name \<and> licenses s = JObj L \<and> map_of L ''users'' = Some (JObj U)
      \<and> (map_of U name = Some (JStr h)
          \<or> map_of U name = Some (JObj d) \<and> map_of d ''server'' = None)"
  then show "fst (get_server s) = Inr (JStr ''global'')"
    by (auto simp: get_server_def)
next
  assume a: "fst (get_server s) = Inr (JStr ''global'') \<and> user_tier p s = Inr None
        \<and> server_config s = JNull
        \<and> net (length (fetches s)) ''global.json'' = Some (JObj gd)"
  let ?s1 = "s\<lparr>fetches := fetches s @ [(ServerSlot, ''global.json'')],
               server_config := JObj gd, server_name := Some ''global''\<rparr>"
  have ld: "load_server_config net ''global'' s = (True, ?s1)"
    using a by (simp add: load_server_config_def fetch_json_def Let_def)
  have st: "server_tier net p s = (search_config p (JObj gd), ?s1)"
    using server_tier_loaded [of s "''global''" net ?s1 p] a ld by simp
  { assume "map_of gd p = Some v"
    then show "get net p False s = (Inr v, ?s1)"
      using a st by (simp add: get_def search_config_dict) }
  assume b: "global_config s = JNull \<and> search_config p (JObj gd) = Inr None
           \<and> net (Suc (length (fetches s))) ''global.json'' = Some (JObj gd')
           \<and> search_config p (JObj gd') = Inr None"
  have gt: "global_tier net p True ?s1 =
      (Inr None, ?s1\<lparr>fetches := fetches s @ [(ServerSlot, ''global.json''),
                                               (GlobalSlot, ''global.json'')],
                     global_config := JObj gd'\<rparr>)"
    using b by (simp add: global_tier_def load_global_config_def fetch_json_def Let_def)
  show "fetches (snd (get net p True s)) =
             fetches s @ [(ServerSlot, ''global.json''), (GlobalSlot, ''global.json'')]"
    using a b st gt by (simp add: get_def say_def)
qed

theorem default_server_reads_global_file_witness:
  "fst (get_server pavel_session) = Inr (JStr ''global'')
   \<and> get example_net ''timeout'' False pavel_session =
       (Inr (JInt 10),
        pavel_session\<lparr>fetches := [(LicensesSlot, ''licenses.json''), (ServerSlot, ''global.json'')],
                       server_config := example_global, server_name := Some ''global''\<rparr>)
   \<and> fetches (snd (get example_net ''range'' True pavel_session)) =
       [(LicensesSlot, ''licenses.json''), (ServerSlot, ''global.json''),
        (GlobalSlot, ''global.json'')]"
proof -
  let ?U = "[(''Pavel'', JStr ''H1''),
             (''Evgen'', JObj [(''hwid'', JStr ''H2''), (''server'', JStr ''alure'')])]"
  let ?A = "JObj
         [(''joystick'', JObj
             [(''Pavel'', JObj [(''level'', JStr ''PRO''), (''expires'', JStr ''2020-01-01''),
                                (''active'', JBool True)]),
              (''Evgen'', JObj [(''expires'', JStr ''2025-06-15''), (''a'', JInt 1)])])]"
  let ?L = "[(''users'', JObj ?U), (''apps'', ?A), (''min_version'', JStr ''5'')]"
  let ?gd = "[(''patterns'', JObj [(''timeout'', JInt 11), (''mask'', JInt 12)]),
              (''delay'', JInt 3), (''CHAT'', JInt 9), (''timeout'', JInt 10), (''a'', JInt 3)]"
  have legacy: "user_name pavel_session = Some ''Pavel'' \<and> licenses pavel_session = JObj ?L
      \<and> map_of ?L ''users'' = Some (JObj ?U)
      \<and> (map_of ?U ''Pavel'' = Some (JStr ''H1'')
          \<or> map_of ?U ''Pavel'' = Some (JObj []) \<and> map_of [] ''server'' = None)"
    by (simp add: pavel_state init_def example_licenses_def)
  have one: "fst (get_server pavel_session) = Inr (JStr ''global'')"
    using default_server_reads_global_file [of pavel_session "''Pavel''" ?L ?U "''H1''" "[]"] legacy
    by blast
  have pre: "fst (get_server pavel_session) = Inr (JStr ''global'')
      \<and> user_tier p pavel_session = Inr None \<and> server_config pavel_session = JNull
      \<and> example_net (length (fetches pavel_session)) ''global.json'' = Some (JObj ?gd)"
    if "p = ''timeout'' \<or> p = ''range''" for p
    using that one by (auto simp: pavel_state run_defs example_defs Let_def)
  have fetched: "fetches pavel_session = [(LicensesSlot, ''licenses.json'')]
      \<and> example_global = JObj ?gd"
    by (simp add: pavel_state init_def example_global_def)
  have hit: "map_of ?gd ''timeout'' = Some (JInt 10)" by simp
  have two: "get example_net ''timeout'' False pavel_session =
       (Inr (JInt 10),
        pavel_session\<lparr>fetches := [(LicensesSlot, ''licenses.json''), (ServerSlot, ''global.json'')],
                       server_config := example_global, server_name := Some ''global''\<rparr>)"
    using default_server_reads_global_file [of pavel_session _ _ _ _ _ "''timeout''" example_net ?gd
        "JInt 10"] pre [of "''timeout''"] hit fetched
    by simp
  have miss: "global_config pavel_session = JNull \<and> search_config ''range'' (JObj ?gd) = Inr None
      \<and> example_net (Suc (length (fetches pavel_session))) ''global.json'' = Some (JObj ?gd)
      \<and> search_config ''range'' (JObj ?gd) = Inr None"
    by (simp add: pavel_state run_defs example_defs)
  have three: "fetches (snd (get example_net ''range'' True pavel_session)) =
       [(LicensesSlot, ''licenses.json''), (ServerSlot, ''global.json''),
        (GlobalSlot, ''global.json'')]"
    using default_server_reads_global_file [of pavel_session _ _ _ _ _ "''range''" example_net ?gd
        _ ?gd] pre [of "''range''"] miss fetched
    by simp
  show ?thesis using one two three by simp
qed

end
